theory Spec2Isabelle
  imports Complex_Main
begin

section \<open>Data model (types.ts)\<close>

text \<open>
  Identifiers are the UUID strings of the source. A date is a calendar date; the source
  keeps it as an ISO string (YYYY-MM-DD) and compares such strings with \<open>\<le>\<close>, \<open>>\<close>
  and \<open>===\<close>, which on that fixed-width format is the order of the calendar, so a date
  is represented by its day number, counted from 1970-01-01. The due date that \<open>addLoan\<close>
  stores is a \<open>toISOString()\<close> timestamp, a date followed by a time of day; compared as a
  string with a working date it behaves as its date part does, so it is represented by
  the day number of that date part. Amounts are JavaScript numbers; they are modelled
  as exact rationals, so no rounding of the floating-point arithmetic is modelled.
\<close>

type_synonym ident = string
type_synonym date = int
type_synonym money = rat

datatype AccountType = CASH | MOBILE | BANK | MEMBER

datatype FundType = PRINCIPAL | INTEREST

datatype TransactionType =
  CONTRIBUTION | LOAN_GIVEN | LOAN_REPAYMENT | EXPENSE | TRANSFER | OPENING_BALANCE

datatype LoanStatus = PAID | OVERDUE | UNPAID

record Member =
  m_id :: ident
  m_name :: string
  m_active :: bool
  advance_credit :: money

record Account =
  a_id :: ident
  account_name :: string
  a_type :: AccountType
  a_active :: bool
  a_memberId :: "ident option"

record Transaction =
  t_id :: ident
  t_date :: date
  t_memberId :: "ident option"
  t_accountId :: ident
  fund_type :: FundType
  transaction_type :: TransactionType
  amount :: money
  related_loan_id :: "ident option"
  t_notes :: string

record Loan =
  l_id :: ident
  l_memberId :: ident
  amount_given :: money
  interest_rate :: money
  date_given :: date
  due_date :: date

section \<open>The store (StoreProvider)\<close>

text \<open>
  The React state of \<open>StoreProvider\<close> that the ledger operations read and write.
  Every operation below is the in-memory part of the source function: the write to the
  persistence backend, the notifications and the reload that follows a failed write are
  outside the model. Where the backend's answer decides what the function does to the
  store or what it returns (\<open>deleteTransaction\<close>, \<open>addLoan\<close>), that answer is a
  parameter.
\<close>

record Store =
  members :: "Member list"
  accounts :: "Account list"
  transactions :: "Transaction list"
  loans :: "Loan list"
  workingDate :: date

text \<open>
  What an operation returns to its caller: an error message (the source returns a
  string), \<open>null\<close>, or nothing at all (\<open>Promise<void>\<close>). The messages that embed a
  formatted number carry the number.
\<close>

datatype failure =
    MemberNotFound                    \<comment> \<open>'Member not found'\<close>
  | InsufficientFunds                 \<comment> \<open>'Insufficient funds in account'\<close>
  | OutstandingLoan                   \<comment> \<open>'Member already has an outstanding loan. Please repay it first.'\<close>
  | DatabaseError                     \<comment> \<open>'Database error'\<close>
  | InsufficientInterestFunds money   \<comment> \<open>'Insufficient interest funds. Available: ... MK'\<close>
  | CannotDeleteAccount money         \<comment> \<open>'Cannot delete account. It has a remaining balance of ... MK.'\<close>

datatype retval = Failure failure | Null | Undefined

fun isFailure :: "retval \<Rightarrow> bool" where
  "isFailure (Failure _) = True"
| "isFailure Null = False"
| "isFailure Undefined = False"

section \<open>Derived views\<close>

record AccountBalance =
  principal :: money
  interest :: money
  total_bal :: money

record LoanDetails =
  interestAmount :: money
  totalDue :: money
  amountPaid :: money
  balance :: money
  status :: LoanStatus

record MemberStats =
  totalContributed :: money
  activeLoans :: nat
  totalLoanBalance :: money
  lastContributionDate :: "date option"
  fundsHeld :: money

definition isBeforeOrOnWorkingDate :: "Store \<Rightarrow> date \<Rightarrow> bool" where
  "isBeforeOrOnWorkingDate s dateStr = (dateStr \<le> workingDate s)"

text \<open>\<open>xs.reduce((sum, t) => sum + t.amount, 0)\<close>\<close>

definition sumAmounts :: "Transaction list \<Rightarrow> money" where
  "sumAmounts xs = foldl (\<lambda>sum t. sum + amount t) 0 xs"

definition getAccountBalance :: "Store \<Rightarrow> ident \<Rightarrow> AccountBalance" where
  "getAccountBalance s accountId =
    (let accTrans = filter (\<lambda>t. t_accountId t = accountId \<and> isBeforeOrOnWorkingDate s (t_date t))
                      (transactions s);
         p = sumAmounts (filter (\<lambda>t. fund_type t = PRINCIPAL) accTrans);
         i = sumAmounts (filter (\<lambda>t. fund_type t = INTEREST) accTrans)
     in \<lparr> principal = p, interest = i, total_bal = p + i \<rparr>)"

definition getLoanDetails :: "Store \<Rightarrow> Loan \<Rightarrow> LoanDetails" where
  "getLoanDetails s loan =
    (let interestAmt = amount_given loan * (interest_rate loan / 100);
         due = amount_given loan + interestAmt;
         paid = sumAmounts
                  (filter (\<lambda>t. related_loan_id t = Some (l_id loan) \<and>
                                transaction_type t = LOAN_REPAYMENT \<and>
                                isBeforeOrOnWorkingDate s (t_date t))
                     (transactions s));
         bal = due - paid;
         st = (if bal \<le> 0 then PAID
               else if workingDate s > due_date loan then OVERDUE
               else UNPAID)
     in \<lparr> interestAmount = interestAmt, totalDue = due, amountPaid = paid,
          balance = bal, status = st \<rparr>)"

text \<open>
  The \<open>forEach\<close> over the member's loans, with its two counters, and the one over the
  member's accounts are folds. \<open>Array.prototype.sort\<close> is stable, as \<open>sort_key\<close> is.
\<close>

definition countLoan :: "Store \<Rightarrow> nat \<times> money \<Rightarrow> Loan \<Rightarrow> nat \<times> money" where
  "countLoan s acc l =
    (let details = getLoanDetails s l
     in if status details \<noteq> PAID then (fst acc + 1, snd acc + balance details) else acc)"

definition getMemberStats :: "Store \<Rightarrow> ident \<Rightarrow> MemberStats" where
  "getMemberStats s memberId =
    (let memberTransactions =
           filter (\<lambda>t. t_memberId t = Some memberId \<and> isBeforeOrOnWorkingDate s (t_date t))
             (transactions s);
         contributed = sumAmounts (filter (\<lambda>t. transaction_type t = CONTRIBUTION) memberTransactions);
         contributions = sort_key (\<lambda>t. - t_date t)
                           (filter (\<lambda>t. transaction_type t = CONTRIBUTION) memberTransactions);
         lastDate = (case contributions of [] \<Rightarrow> None | c # _ \<Rightarrow> Some (t_date c));
         memberLoans = filter (\<lambda>l. l_memberId l = memberId \<and> isBeforeOrOnWorkingDate s (date_given l))
                         (loans s);
         counters = foldl (countLoan s) (0, 0) memberLoans;
         memberAccounts = filter (\<lambda>a. a_memberId a = Some memberId \<and> a_type a = MEMBER) (accounts s);
         held = foldl (\<lambda>f acc. f + total_bal (getAccountBalance s (a_id acc))) 0 memberAccounts
     in \<lparr> totalContributed = contributed, activeLoans = fst counters,
          totalLoanBalance = snd counters, lastContributionDate = lastDate,
          fundsHeld = held \<rparr>)"

section \<open>The Date object of the runtime\<close>

text \<open>
  \<open>addLoan\<close> computes the due date with JavaScript's \<open>Date\<close>, which counts on the local
  clock. An instant is its number of milliseconds since the epoch. The local clock is
  ECMAScript's \<open>LocalTZA(t, isUTC)\<close>: the offset of local time from UTC, in milliseconds,
  at the UTC instant \<open>t\<close> (\<open>isUTC\<close>) or at the local time \<open>t\<close> (otherwise). It
  belongs to the environment, so it is a parameter.
\<close>

type_synonym instant = int
type_synonym clock = "int \<Rightarrow> bool \<Rightarrow> int"

definition msPerDay :: int where
  "msPerDay = 86400000"

text \<open>\<open>new Date('YYYY-MM-DD')\<close>: midnight UTC of that day.\<close>

definition parseDate :: "date \<Rightarrow> instant" where
  "parseDate d = d * msPerDay"

definition localOfUtc :: "clock \<Rightarrow> instant \<Rightarrow> int" where
  "localOfUtc tz t = t + tz t True"

definition utcOfLocal :: "clock \<Rightarrow> int \<Rightarrow> instant" where
  "utcOfLocal tz t = t - tz t False"

text \<open>
  \<open>d.setDate(d.getDate() + n)\<close>: the day of the month of the local time is moved by \<open>n\<close>
  (overflowing into the following months), the local time of day is kept, and the result
  is read back as an instant.
\<close>

definition setDatePlus :: "clock \<Rightarrow> int \<Rightarrow> instant \<Rightarrow> instant" where
  "setDatePlus tz n t = utcOfLocal tz (localOfUtc tz t + n * msPerDay)"

text \<open>The date part of \<open>d.toISOString()\<close>, which is in UTC.\<close>

definition isoDay :: "instant \<Rightarrow> date" where
  "isoDay t = t div msPerDay"

section \<open>Ledger operations\<close>

text \<open>
  Each operation takes the store and returns what the source function returns together
  with the store after its optimistic updates. \<open>uuid\<close> is the sequence of identifiers
  that the successive calls of \<open>uuidv4()\<close> yield during the operation.
\<close>

definition addMember :: "(nat \<Rightarrow> ident) \<Rightarrow> string \<Rightarrow> money \<Rightarrow> Store \<Rightarrow> ident \<times> Store" where
  "addMember uuid name startingCredit s =
    (uuid 0,
     s\<lparr> members := members s @
          [\<lparr> m_id = uuid 0, m_name = name, m_active = True, advance_credit = startingCredit \<rparr>] \<rparr>)"

text \<open>\<open>updates\<close> is the merge \<open>{ ...m, ...updates }\<close> with the partial record.\<close>

definition updateMember :: "ident \<Rightarrow> (Member \<Rightarrow> Member) \<Rightarrow> Store \<Rightarrow> Store" where
  "updateMember i updates s =
    s\<lparr> members := map (\<lambda>m. if m_id m = i then updates m else m) (members s) \<rparr>"

definition addAccount :: "(nat \<Rightarrow> ident) \<Rightarrow> string \<Rightarrow> AccountType \<Rightarrow> ident option \<Rightarrow> Store \<Rightarrow> ident \<times> Store" where
  "addAccount uuid name ty memberId s =
    (uuid 0,
     s\<lparr> accounts := accounts s @
          [\<lparr> a_id = uuid 0, account_name = name, a_type = ty, a_active = True,
             a_memberId = memberId \<rparr>] \<rparr>)"

text \<open>
  \<open>dbError\<close> says whether the backend refused the delete; the source then returns before
  it touches the entry log.
\<close>

definition deleteTransaction :: "bool \<Rightarrow> ident \<Rightarrow> Store \<Rightarrow> Store" where
  "deleteTransaction dbError i s =
    (if dbError then s
     else s\<lparr> transactions := filter (\<lambda>t. t_id t \<noteq> i) (transactions s) \<rparr>)"

definition deleteAccount :: "ident \<Rightarrow> Store \<Rightarrow> retval \<times> Store" where
  "deleteAccount i s =
    (let accTrans = filter (\<lambda>t. t_accountId t = i) (transactions s);
         totalBalance = sumAmounts accTrans
     in if \<bar>totalBalance\<bar> > 1 / 100
        then (Failure (CannotDeleteAccount totalBalance), s)
        else (Null, s\<lparr> accounts := filter (\<lambda>a. a_id a \<noteq> i) (accounts s) \<rparr>))"

text \<open>
  The member's loans, each merged with its evaluation (\<open>{ ...l, ...getLoanDetails(l) }\<close>,
  here a pair), the paid ones dropped, oldest first.
\<close>

definition unpaidLoans :: "Store \<Rightarrow> ident \<Rightarrow> (Loan \<times> LoanDetails) list" where
  "unpaidLoans s memberId =
    sort_key (\<lambda>ld. date_given (fst ld))
      (filter (\<lambda>ld. status (snd ld) \<noteq> PAID)
        (map (\<lambda>l. (l, getLoanDetails s l))
          (filter (\<lambda>l. l_memberId l = memberId) (loans s))))"

text \<open>The two \<open>tData\<close> objects that \<open>addContribution\<close> builds.\<close>

definition shareEntry :: "ident \<Rightarrow> ident \<Rightarrow> ident \<Rightarrow> date \<Rightarrow> string \<Rightarrow> money \<Rightarrow> Transaction" where
  "shareEntry tId memberId accountId date note share =
    \<lparr> t_id = tId, t_date = date, t_memberId = Some memberId, t_accountId = accountId,
      fund_type = PRINCIPAL, transaction_type = CONTRIBUTION, amount = share,
      related_loan_id = None, t_notes = (if note = [] then ''Daily Share'' else note) \<rparr>"

definition autoRepaymentEntry :: "ident \<Rightarrow> ident \<Rightarrow> ident \<Rightarrow> date \<Rightarrow> money \<Rightarrow> ident \<Rightarrow> Transaction" where
  "autoRepaymentEntry tId memberId accountId date repaymentAmount loanId =
    \<lparr> t_id = tId, t_date = date, t_memberId = Some memberId, t_accountId = accountId,
      fund_type = PRINCIPAL, transaction_type = LOAN_REPAYMENT, amount = repaymentAmount,
      related_loan_id = Some loanId, t_notes = ''Auto-repayment from extra contribution'' \<rparr>"

text \<open>
  The loop \<open>for (const loan of unpaidLoans)\<close>: \<open>k\<close> counts the identifiers drawn so
  far, the result is the entries pushed and the final \<open>remainingExtra\<close>.
\<close>

fun repayLoop ::
  "(nat \<Rightarrow> ident) \<Rightarrow> ident \<Rightarrow> ident \<Rightarrow> date \<Rightarrow> nat \<Rightarrow> money \<Rightarrow> (Loan \<times> LoanDetails) list
   \<Rightarrow> Transaction list \<times> money" where
  "repayLoop uuid memberId accountId date k remainingExtra [] = ([], remainingExtra)"
| "repayLoop uuid memberId accountId date k remainingExtra (loan # rest) =
    (if remainingExtra \<le> 0 then ([], remainingExtra)
     else
       (let repaymentAmount = min remainingExtra (balance (snd loan))
        in if repaymentAmount > 0
           then
             (let r = repayLoop uuid memberId accountId date (k + 1)
                        (remainingExtra - repaymentAmount) rest
              in (autoRepaymentEntry (uuid k) memberId accountId date repaymentAmount
                    (l_id (fst loan)) # fst r,
                  snd r))
           else repayLoop uuid memberId accountId date k remainingExtra rest))"

definition addContribution ::
  "(nat \<Rightarrow> ident) \<Rightarrow> ident \<Rightarrow> money \<Rightarrow> ident \<Rightarrow> date \<Rightarrow> string \<Rightarrow> Store \<Rightarrow> retval \<times> Store" where
  "addContribution uuid memberId amt accountId date note s =
    (case find (\<lambda>m. m_id m = memberId) (members s) of
       None \<Rightarrow> (Failure MemberNotFound, s)
     | Some member \<Rightarrow>
        (let existingContributionAmountOnDate =
               sumAmounts (filter (\<lambda>t. t_memberId t = Some memberId \<and> t_date t = date \<and>
                                        transaction_type t = CONTRIBUTION) (transactions s));
             remainingShareCapacity = max 0 (1000 - existingContributionAmountOnDate);
             totalPool = amt + advance_credit member;
             share = min remainingShareCapacity totalPool;
             extra = totalPool - share;
             shareTrans =
               (if share > 0 then [shareEntry (uuid 0) memberId accountId date note share]
                else []);
             r = (if extra > 0
                  then repayLoop uuid memberId accountId date (length shareTrans) extra
                         (unpaidLoans s memberId)
                  else ([], 0))
         in (Null,
             updateMember memberId (\<lambda>m. m\<lparr> advance_credit := snd r \<rparr>)
               (s\<lparr> transactions := transactions s @ shareTrans @ fst r \<rparr>))))"

text \<open>
  \<open>lError\<close> says whether the insert of the new loan into the backend failed; the source
  then returns 'Database error' after its optimistic updates (and asks for a reload).
  \<open>tz\<close> is the local clock in which \<open>dueDate.setDate(dueDate.getDate() + 30)\<close> counts.
\<close>

definition addLoan ::
  "(nat \<Rightarrow> ident) \<Rightarrow> clock \<Rightarrow> bool \<Rightarrow> ident \<Rightarrow> money \<Rightarrow> ident \<Rightarrow> date \<Rightarrow> money \<Rightarrow> Store
   \<Rightarrow> retval \<times> Store" where
  "addLoan uuid tz lError memberId amt accountId date interestRate s =
    (if total_bal (getAccountBalance s accountId) < amt then (Failure InsufficientFunds, s)
     else
       (let memberLoans = filter (\<lambda>l. l_memberId l = memberId) (loans s);
            hasActiveLoan = list_ex (\<lambda>l. status (getLoanDetails s l) \<noteq> PAID) memberLoans
        in if hasActiveLoan then (Failure OutstandingLoan, s)
           else
             (let loanId = uuid 0;
                  dueDate = setDatePlus tz 30 (parseDate date);
                  transId = uuid 1
              in (if lError then Failure DatabaseError else Null,
                  s\<lparr> loans := loans s @
                        [\<lparr> l_id = loanId, l_memberId = memberId, amount_given = amt,
                           interest_rate = interestRate, date_given = date,
                           due_date = isoDay dueDate \<rparr>],
                     transactions := transactions s @
                        [\<lparr> t_id = transId, t_date = date, t_memberId = Some memberId,
                           t_accountId = accountId, fund_type = PRINCIPAL,
                           transaction_type = LOAN_GIVEN, amount = - amt,
                           related_loan_id = None,
                           t_notes = ''Loan given to member'' \<rparr>] \<rparr>))))"

definition addRepayment ::
  "(nat \<Rightarrow> ident) \<Rightarrow> ident \<Rightarrow> money \<Rightarrow> ident \<Rightarrow> date \<Rightarrow> string \<Rightarrow> Store \<Rightarrow> retval \<times> Store" where
  "addRepayment uuid loanId amt accountId date note s =
    (case find (\<lambda>l. l_id l = loanId) (loans s) of
       None \<Rightarrow> (Undefined, s)
     | Some loan \<Rightarrow>
        (Undefined,
         s\<lparr> transactions := transactions s @
              [\<lparr> t_id = uuid 0, t_date = date, t_memberId = Some (l_memberId loan),
                 t_accountId = accountId, fund_type = PRINCIPAL,
                 transaction_type = LOAN_REPAYMENT, amount = amt,
                 related_loan_id = Some loanId,
                 t_notes = (if note = [] then ''Direct repayment'' else note) \<rparr>] \<rparr>))"

definition addExpense ::
  "(nat \<Rightarrow> ident) \<Rightarrow> money \<Rightarrow> ident \<Rightarrow> date \<Rightarrow> string \<Rightarrow> Store \<Rightarrow> retval \<times> Store" where
  "addExpense uuid amt accountId date note s =
    (let allInterestIncoming =
           sumAmounts (filter (\<lambda>t. fund_type t = INTEREST \<and> amount t > 0 \<and>
                                    isBeforeOrOnWorkingDate s (t_date t)) (transactions s));
         allInterestOutgoing =
           sumAmounts (filter (\<lambda>t. transaction_type t = EXPENSE \<and> fund_type t = INTEREST \<and>
                                    isBeforeOrOnWorkingDate s (t_date t)) (transactions s));
         availableInterest = allInterestIncoming - allInterestOutgoing
     in if availableInterest < amt
        then (Failure (InsufficientInterestFunds availableInterest), s)
        else (Null,
              s\<lparr> transactions := transactions s @
                   [\<lparr> t_id = uuid 0, t_date = date, t_memberId = None,
                      t_accountId = accountId, fund_type = INTEREST,
                      transaction_type = EXPENSE, amount = - amt,
                      related_loan_id = None, t_notes = note \<rparr>] \<rparr>))"

text \<open>\<open>accounts.find(a => a.id === i)?.account_name\<close> inside a template string.\<close>

definition accountNameOf :: "Store \<Rightarrow> ident \<Rightarrow> string" where
  "accountNameOf s i =
    (case find (\<lambda>a. a_id a = i) (accounts s) of
       None \<Rightarrow> ''undefined''
     | Some a \<Rightarrow> account_name a)"

definition addTransfer ::
  "(nat \<Rightarrow> ident) \<Rightarrow> ident \<Rightarrow> ident \<Rightarrow> money \<Rightarrow> FundType \<Rightarrow> date \<Rightarrow> string \<Rightarrow> Store
   \<Rightarrow> retval \<times> Store" where
  "addTransfer uuid fromAccountId toAccountId amt fundType date note s =
    (let trans1 = \<lparr> t_id = uuid 0, t_date = date, t_memberId = None,
                    t_accountId = fromAccountId, fund_type = fundType,
                    transaction_type = TRANSFER, amount = - amt, related_loan_id = None,
                    t_notes = ''Transfer to '' @ accountNameOf s toAccountId @ '': '' @ note \<rparr>;
         trans2 = \<lparr> t_id = uuid 1, t_date = date, t_memberId = None,
                    t_accountId = toAccountId, fund_type = fundType,
                    transaction_type = TRANSFER, amount = amt, related_loan_id = None,
                    t_notes = ''Transfer from '' @ accountNameOf s fromAccountId @ '': '' @ note \<rparr>
     in (Undefined, s\<lparr> transactions := transactions s @ [trans1, trans2] \<rparr>))"

definition addOpeningBalance ::
  "(nat \<Rightarrow> ident) \<Rightarrow> ident \<Rightarrow> money \<Rightarrow> FundType \<Rightarrow> date \<Rightarrow> string \<Rightarrow> Store \<Rightarrow> retval \<times> Store" where
  "addOpeningBalance uuid accountId amt fundType date note s =
    (Undefined,
     s\<lparr> transactions := transactions s @
          [\<lparr> t_id = uuid 0, t_date = date, t_memberId = None, t_accountId = accountId,
             fund_type = fundType, transaction_type = OPENING_BALANCE, amount = amt,
             related_loan_id = None,
             t_notes = (if note = [] then ''Opening Balance'' else note) \<rparr>] \<rparr>)"

section \<open>The allocation and the interest pool as the specification words them\<close>

text \<open>
  These definitions follow the wording of the specification (sections 4.4 and 4.6), not
  the code; the theorems on \<open>addContribution\<close> and \<open>addExpense\<close> compare the two. \<open>appended s s'\<close> is what
  an operation added at the end of the entry log.
\<close>

definition appended :: "Store \<Rightarrow> Store \<Rightarrow> Transaction list" where
  "appended s s' = drop (length (transactions s)) (transactions s')"

definition spec_alreadyContributedToday :: "Store \<Rightarrow> ident \<Rightarrow> date \<Rightarrow> money" where
  "spec_alreadyContributedToday s memberId date =
    sum_list (map amount
      (filter (\<lambda>t. t_memberId t = Some memberId \<and> transaction_type t = CONTRIBUTION \<and>
                    t_date t = date)
         (transactions s)))"

definition spec_shareCapacity :: "Store \<Rightarrow> ident \<Rightarrow> date \<Rightarrow> money" where
  "spec_shareCapacity s memberId date =
    max 0 (1000 - spec_alreadyContributedToday s memberId date)"

definition spec_pool :: "Member \<Rightarrow> money \<Rightarrow> money" where
  "spec_pool member amt = amt + advance_credit member"

definition spec_share :: "Store \<Rightarrow> Member \<Rightarrow> money \<Rightarrow> date \<Rightarrow> money" where
  "spec_share s member amt date =
    min (spec_shareCapacity s (m_id member) date) (spec_pool member amt)"

definition spec_extra :: "Store \<Rightarrow> Member \<Rightarrow> money \<Rightarrow> date \<Rightarrow> money" where
  "spec_extra s member amt date = spec_pool member amt - spec_share s member amt date"

definition spec_unpaidLoans :: "Store \<Rightarrow> ident \<Rightarrow> Loan list" where
  "spec_unpaidLoans s memberId =
    sort_key date_given
      (filter (\<lambda>l. l_memberId l = memberId \<and> status (getLoanDetails s l) \<noteq> PAID) (loans s))"

text \<open>
  Oldest debt first, while extra remains: each loan is repaid \<open>min extra balance\<close>; the
  result is the list of (loan, amount repaid) and the extra left over.
\<close>

fun spec_waterfall :: "Store \<Rightarrow> money \<Rightarrow> Loan list \<Rightarrow> (Loan \<times> money) list \<times> money" where
  "spec_waterfall s extra [] = ([], extra)"
| "spec_waterfall s extra (loan # rest) =
    (if extra > 0
     then (let repaid = min extra (balance (getLoanDetails s loan));
               r = spec_waterfall s (extra - repaid) rest
           in ((loan, repaid) # fst r, snd r))
     else ([], extra))"

text \<open>The interest still available for expenses, as section 4.6 of the specification words it.\<close>

definition spec_availableInterest :: "Store \<Rightarrow> money" where
  "spec_availableInterest s =
     sum_list (map amount
       (filter (\<lambda>t. fund_type t = INTEREST \<and> 0 < amount t \<and> t_date t \<le> workingDate s)
          (transactions s)))
     - sum_list (map amount
       (filter (\<lambda>t. transaction_type t = EXPENSE \<and> fund_type t = INTEREST \<and> t_date t \<le> workingDate s)
          (transactions s)))"

text \<open>The balance of one fund pool of an account.\<close>

definition poolBalance :: "FundType \<Rightarrow> AccountBalance \<Rightarrow> money" where
  "poolBalance f b = (case f of PRINCIPAL \<Rightarrow> principal b | INTEREST \<Rightarrow> interest b)"

section \<open>Auxiliary definitions for the proofs\<close>

text \<open>
  The two parts of the batch that \<open>addContribution\<close> appends: the share entry, if any,
  and the result of the repayment loop, which runs only when extra is positive.
\<close>

definition batchShare ::
  "(nat \<Rightarrow> ident) \<Rightarrow> ident \<Rightarrow> ident \<Rightarrow> date \<Rightarrow> string \<Rightarrow> money \<Rightarrow> Transaction list" where
  "batchShare uuid memberId accountId date note share =
    (if share > 0 then [shareEntry (uuid 0) memberId accountId date note share] else [])"

definition batchRepay ::
  "(nat \<Rightarrow> ident) \<Rightarrow> ident \<Rightarrow> ident \<Rightarrow> date \<Rightarrow> nat \<Rightarrow> money \<Rightarrow> (Loan \<times> LoanDetails) list
   \<Rightarrow> Transaction list \<times> money" where
  "batchRepay uuid memberId accountId date k extra lds =
    (if extra > 0 then repayLoop uuid memberId accountId date k extra lds else ([], 0))"

section \<open>Example ledgers\<close>

definition exUuid :: "nat \<Rightarrow> ident" where
  "exUuid n = replicate (Suc n) (CHR ''u'')"

definition alice :: Member where
  "alice = \<lparr> m_id = ''m1'', m_name = ''Alice'', m_active = True, advance_credit = 0 \<rparr>"

text \<open>Scenario A of the specification: no entries, no loans, no carried credit.\<close>

definition scenarioA :: Store where
  "scenarioA = \<lparr> members = [alice], accounts = [], transactions = [], loans = [],
                  workingDate = 100 \<rparr>"

definition bob :: Member where
  "bob = \<lparr> m_id = ''m2'', m_name = ''Bob'', m_active = True, advance_credit = 40 \<rparr>"

definition loanOld :: Loan where
  "loanOld = \<lparr> l_id = ''L1'', l_memberId = ''m1'', amount_given = 100, interest_rate = 10,
               date_given = 20, due_date = 50 \<rparr>"

definition loanNew :: Loan where
  "loanNew = \<lparr> l_id = ''L2'', l_memberId = ''m1'', amount_given = 200, interest_rate = 10,
               date_given = 60, due_date = 90 \<rparr>"

text \<open>
  The member has reached the daily cap on day 100 and owes on two loans, the one listed
  second being the older.
\<close>

definition twoDebts :: Store where
  "twoDebts =
    \<lparr> members = [alice\<lparr> advance_credit := 25 \<rparr>, bob], accounts = [],
      transactions = [shareEntry ''t0'' ''m1'' ''cash'' 100 [] 1000],
      loans = [loanNew, loanOld], workingDate = 100 \<rparr>"

definition openingEntry :: "ident \<Rightarrow> ident \<Rightarrow> FundType \<Rightarrow> date \<Rightarrow> money \<Rightarrow> Transaction" where
  "openingEntry tId accountId fundType date amt =
    \<lparr> t_id = tId, t_date = date, t_memberId = None, t_accountId = accountId,
      fund_type = fundType, transaction_type = OPENING_BALANCE, amount = amt,
      related_loan_id = None, t_notes = ''Opening Balance'' \<rparr>"

definition cashAccount :: Account where
  "cashAccount = \<lparr> a_id = ''cash'', account_name = ''Cash'', a_type = CASH, a_active = True,
                   a_memberId = None \<rparr>"

definition bankAccount :: Account where
  "bankAccount = \<lparr> a_id = ''bank'', account_name = ''Bank'', a_type = BANK, a_active = True,
                   a_memberId = None \<rparr>"

text \<open>
  A ledger with 5000 of principal and 300 of interest in cash and one hundredth in the
  bank, all entered on day 1, seen on day 100.
\<close>

definition funded :: Store where
  "funded =
    \<lparr> members = [alice], accounts = [cashAccount, bankAccount],
      transactions = [openingEntry ''o1'' ''cash'' PRINCIPAL 1 5000,
                      openingEntry ''o2'' ''cash'' INTEREST 1 300,
                      openingEntry ''o3'' ''bank'' PRINCIPAL 1 (1 / 100)],
      loans = [], workingDate = 100 \<rparr>"

text \<open>The same money, entered on day 8, seen from day 5.\<close>

definition backDated :: Store where
  "backDated =
    \<lparr> members = [alice], accounts = [cashAccount],
      transactions = [openingEntry ''o1'' ''cash'' PRINCIPAL 8 5000],
      loans = [], workingDate = 5 \<rparr>"

text \<open>A clock that shows UTC.\<close>

definition utcClock :: clock where
  "utcClock t isUTC = 0"

text \<open>
  The clock of America/New_York around March 2024: five hours behind UTC until 02:00
  local time (07:00 UTC) on 2024-03-10, which is day 19792, and four hours behind from
  then on. 2024-03-01 is day 19783.
\<close>

definition newYork2024 :: clock where
  "newYork2024 t isUTC =
    (if t < 19792 * msPerDay + (if isUTC then 7 else 2) * 3600000
     then - (5 * 3600000) else - (4 * 3600000))"

definition loanFuture :: Loan where
  "loanFuture = \<lparr> l_id = ''L3'', l_memberId = ''m1'', amount_given = 300, interest_rate = 10,
                  date_given = 150, due_date = 180 \<rparr>"

text \<open>Scenario E of the specification: a loan of 1000 at 10 percent, seen the day after it fell due.\<close>

definition loanE :: Loan where
  "loanE = \<lparr> l_id = ''L5'', l_memberId = ''m1'', amount_given = 1000, interest_rate = 10,
             date_given = 20, due_date = 50 \<rparr>"

definition scenarioE :: Store where
  "scenarioE = \<lparr> members = [alice], accounts = [], transactions = [], loans = [loanE],
                  workingDate = 51 \<rparr>"

section \<open>Properties of the derived views\<close>

lemma foldl_amount_acc:
  "foldl (\<lambda>sum t. sum + amount t) a xs = a + sum_list (map amount xs)"
  by (induction xs arbitrary: a) (simp_all add: add.assoc)

lemma sumAmounts_sum_list: "sumAmounts xs = sum_list (map amount xs)"
  by (simp add: sumAmounts_def foldl_amount_acc)

lemma sumAmounts_append: "sumAmounts (xs @ ys) = sumAmounts xs + sumAmounts ys"
  by (simp add: sumAmounts_sum_list)

text \<open>
  C3. The loan evaluator: flat interest principal * rate / 100, total due principal plus
  interest, amount paid the sum of the LOAN_REPAYMENT entries of this loan dated on or
  before the working date, balance their difference, and status PAID when the balance
  is at most zero, else OVERDUE when the working date is strictly after the due date,
  else UNPAID.
\<close>

theorem getLoanDetails_spec:
  "interestAmount (getLoanDetails s loan) = amount_given loan * interest_rate loan / 100
   \<and> totalDue (getLoanDetails s loan) = amount_given loan + interestAmount (getLoanDetails s loan)
   \<and> amountPaid (getLoanDetails s loan) =
       sum_list (map amount
         (filter (\<lambda>t. related_loan_id t = Some (l_id loan) \<and> transaction_type t = LOAN_REPAYMENT
                       \<and> t_date t \<le> workingDate s) (transactions s)))
   \<and> balance (getLoanDetails s loan) =
       totalDue (getLoanDetails s loan) - amountPaid (getLoanDetails s loan)
   \<and> status (getLoanDetails s loan) =
       (if balance (getLoanDetails s loan) \<le> 0 then PAID
        else if workingDate s > due_date loan then OVERDUE
        else UNPAID)"
  by (simp add: getLoanDetails_def Let_def sumAmounts_sum_list isBeforeOrOnWorkingDate_def)

theorem getLoanDetails_spec_witness:
  "interestAmount (getLoanDetails scenarioE loanE) = 100
   \<and> totalDue (getLoanDetails scenarioE loanE) = 1100
   \<and> amountPaid (getLoanDetails scenarioE loanE) = 0
   \<and> balance (getLoanDetails scenarioE loanE) = 1100
   \<and> status (getLoanDetails scenarioE loanE) = OVERDUE"
proof -
  have f: "amount_given loanE = 1000" "interest_rate loanE = 10" "due_date loanE = 50"
    "transactions scenarioE = []" "workingDate scenarioE = 51"
    by (simp_all add: loanE_def scenarioE_def)
  note t = getLoanDetails_spec[of scenarioE loanE, unfolded f]
  have i: "interestAmount (getLoanDetails scenarioE loanE) = 100" using t by simp
  have d: "totalDue (getLoanDetails scenarioE loanE) = 1100" using t i by simp
  have p: "amountPaid (getLoanDetails scenarioE loanE) = 0" using t by simp
  have b: "balance (getLoanDetails scenarioE loanE) = 1100" using t d p by simp
  have "status (getLoanDetails scenarioE loanE) = OVERDUE" using t b by simp
  with i d p b show ?thesis by simp
qed

section \<open>The contribution allocator\<close>

lemma find_m_id: "find (\<lambda>m. m_id m = i) ms = Some m \<Longrightarrow> m_id m = i"
  by (auto simp: find_Some_iff)

lemma existing_eq:
  "sumAmounts (filter (\<lambda>t. t_memberId t = Some memberId \<and> t_date t = date \<and>
                            transaction_type t = CONTRIBUTION) (transactions s))
   = spec_alreadyContributedToday s memberId date"
  unfolding spec_alreadyContributedToday_def sumAmounts_sum_list
  by (rule arg_cong[where f="\<lambda>p. sum_list (map amount (filter p (transactions s)))"]) auto

lemma repayLoop_kind:
  "t \<in> set (fst (repayLoop uuid memberId accountId date k extra lds)) \<Longrightarrow>
   transaction_type t = LOAN_REPAYMENT"
  by (induction lds arbitrary: k extra) (auto simp: Let_def autoRepaymentEntry_def split: if_splits)

lemma batchRepay_kind:
  "t \<in> set (fst (batchRepay uuid memberId accountId date k extra lds)) \<Longrightarrow>
   transaction_type t = LOAN_REPAYMENT"
  by (auto simp: batchRepay_def repayLoop_kind split: if_splits)

lemma batchShare_kind:
  "t \<in> set (batchShare uuid memberId accountId date note share) \<Longrightarrow>
   transaction_type t = CONTRIBUTION"
  by (auto simp: batchShare_def shareEntry_def split: if_splits)

lemma filter_none: "(\<And>x. x \<in> set xs \<Longrightarrow> \<not> P x) \<Longrightarrow> filter P xs = []"
  by (induction xs) auto

lemma filter_all: "(\<And>x. x \<in> set xs \<Longrightarrow> P x) \<Longrightarrow> filter P xs = xs"
  by (induction xs) auto

text \<open>What \<open>addContribution\<close> does for a registered member, in the spec's vocabulary.\<close>

lemma addContribution_found:
  assumes "find (\<lambda>m. m_id m = memberId) (members s) = Some member"
  shows "addContribution uuid memberId amt accountId date note s =
    (Null,
     updateMember memberId
       (\<lambda>m. m\<lparr> advance_credit :=
          snd (batchRepay uuid memberId accountId date
                 (length (batchShare uuid memberId accountId date note (spec_share s member amt date)))
                 (spec_extra s member amt date) (unpaidLoans s memberId)) \<rparr>)
       (s\<lparr> transactions := transactions s @
            batchShare uuid memberId accountId date note (spec_share s member amt date) @
            fst (batchRepay uuid memberId accountId date
                 (length (batchShare uuid memberId accountId date note (spec_share s member amt date)))
                 (spec_extra s member amt date) (unpaidLoans s memberId)) \<rparr>))"
proof -
  have i: "m_id member = memberId" by (rule find_m_id[OF assms])
  show ?thesis
    unfolding addContribution_def batchShare_def batchRepay_def spec_extra_def spec_share_def
      spec_shareCapacity_def spec_pool_def i
    by (simp only: assms option.case Let_def existing_eq)
qed

lemma addContribution_appended:
  assumes "find (\<lambda>m. m_id m = memberId) (members s) = Some member"
  shows "appended s (snd (addContribution uuid memberId amt accountId date note s)) =
            batchShare uuid memberId accountId date note (spec_share s member amt date) @
            fst (batchRepay uuid memberId accountId date
                 (length (batchShare uuid memberId accountId date note (spec_share s member amt date)))
                 (spec_extra s member amt date) (unpaidLoans s memberId))"
  by (simp add: addContribution_found[OF assms] appended_def updateMember_def)

lemma addContribution_log:
  "transactions (snd (addContribution uuid memberId amt accountId date note s)) =
     transactions s @ appended s (snd (addContribution uuid memberId amt accountId date note s))"
proof (cases "find (\<lambda>m. m_id m = memberId) (members s)")
  case None
  then show ?thesis by (simp add: addContribution_def appended_def)
next
  case (Some member)
  show ?thesis
    by (simp add: addContribution_found[OF Some] appended_def updateMember_def)
qed

lemma unpaid_none:
  assumes "list_all (\<lambda>l. l_memberId l = memberId \<longrightarrow> status (getLoanDetails s l) = PAID) (loans s)"
  shows "unpaidLoans s memberId = []"
proof -
  have "filter (\<lambda>ld. status (snd ld) \<noteq> PAID)
        (map (\<lambda>l. (l, getLoanDetails s l))
          (filter (\<lambda>l. l_memberId l = memberId) (loans s))) = []"
    using assms by (auto simp: filter_empty_conv list_all_iff)
  then show ?thesis by (simp add: unpaidLoans_def)
qed

text \<open>
  C1. For a registered member, the share is min (max 0 (1000 - already contributed on
  that exact date)) (amount + carried credit), the sum taken over all of the member's
  CONTRIBUTION entries of that date whatever the working date; the entries appended to
  the log contain exactly one CONTRIBUTION entry, of fund pool PRINCIPAL, of that amount,
  on the destination account, when the share is positive, and none otherwise. In
  particular a member with no carried credit, no contribution on that day and no unpaid
  loan who contributes 1500 gets the single entry of 1000.
\<close>

theorem addContribution_share:
  assumes "find (\<lambda>m. m_id m = memberId) (members s) = Some member"
  shows "transactions (snd (addContribution uuid memberId amt accountId date note s)) =
           transactions s @ appended s (snd (addContribution uuid memberId amt accountId date note s))
     \<and> spec_share s member amt date =
         min (max 0 (1000 - sum_list (map amount
               (filter (\<lambda>t. t_memberId t = Some memberId \<and> transaction_type t = CONTRIBUTION \<and>
                    t_date t = date) (transactions s)))))
             (amt + advance_credit member)
     \<and> filter (\<lambda>t. transaction_type t = CONTRIBUTION)
           (appended s (snd (addContribution uuid memberId amt accountId date note s))) =
         (if spec_share s member amt date > 0
          then [\<lparr> t_id = uuid 0, t_date = date, t_memberId = Some memberId,
                   t_accountId = accountId, fund_type = PRINCIPAL,
                   transaction_type = CONTRIBUTION, amount = spec_share s member amt date,
                   related_loan_id = None,
                   t_notes = (if note = [] then ''Daily Share'' else note) \<rparr>]
          else [])
     \<and> (advance_credit member = 0 \<and> amt = 1500
          \<and> filter (\<lambda>t. t_memberId t = Some memberId \<and> transaction_type t = CONTRIBUTION \<and>
                    t_date t = date) (transactions s) = []
          \<and> list_all (\<lambda>l. l_memberId l = memberId \<longrightarrow> status (getLoanDetails s l) = PAID) (loans s)
        \<longrightarrow> appended s (snd (addContribution uuid memberId amt accountId date note s)) =
              [\<lparr> t_id = uuid 0, t_date = date, t_memberId = Some memberId,
                 t_accountId = accountId, fund_type = PRINCIPAL,
                 transaction_type = CONTRIBUTION, amount = 1000,
                 related_loan_id = None,
                 t_notes = (if note = [] then ''Daily Share'' else note) \<rparr>])"
proof -
  let ?s' = "snd (addContribution uuid memberId amt accountId date note s)"
  let ?share = "spec_share s member amt date"
  let ?sh = "batchShare uuid memberId accountId date note ?share"
  let ?rp = "fst (batchRepay uuid memberId accountId date (length ?sh)
                 (spec_extra s member amt date) (unpaidLoans s memberId))"
  have i: "m_id member = memberId" by (rule find_m_id[OF assms])
  have app: "appended s ?s' = ?sh @ ?rp" by (rule addContribution_appended[OF assms])
  have f1: "filter (\<lambda>t. transaction_type t = CONTRIBUTION) ?sh = ?sh"
    by (rule filter_all) (rule batchShare_kind)
  have f2: "filter (\<lambda>t. transaction_type t = CONTRIBUTION) ?rp = []"
    by (rule filter_none) (auto dest: batchRepay_kind)
  have c3: "filter (\<lambda>t. transaction_type t = CONTRIBUTION) (appended s ?s') =
         (if ?share > 0 then [shareEntry (uuid 0) memberId accountId date note ?share] else [])"
    unfolding app filter_append f1 f2 by (simp add: batchShare_def)
  have c2: "?share = min (max 0 (1000 - sum_list (map amount
               (filter (\<lambda>t. t_memberId t = Some memberId \<and> transaction_type t = CONTRIBUTION \<and>
                    t_date t = date) (transactions s)))))
             (amt + advance_credit member)"
    by (simp add: spec_share_def spec_shareCapacity_def spec_alreadyContributedToday_def
        spec_pool_def i)
  have c4: "appended s ?s' = [shareEntry (uuid 0) memberId accountId date note 1000]"
    if h: "advance_credit member = 0 \<and> amt = 1500
          \<and> filter (\<lambda>t. t_memberId t = Some memberId \<and> transaction_type t = CONTRIBUTION \<and>
                    t_date t = date) (transactions s) = []
          \<and> list_all (\<lambda>l. l_memberId l = memberId \<longrightarrow> status (getLoanDetails s l) = PAID) (loans s)"
  proof -
    have sh: "?share = 1000" using h unfolding c2 by simp
    have u: "unpaidLoans s memberId = []" using h by (simp add: unpaid_none)
    show ?thesis unfolding app sh u by (simp add: batchShare_def batchRepay_def)
  qed
  show ?thesis using addContribution_log c2 c3 c4 unfolding shareEntry_def by blast
qed

theorem addContribution_share_witness:
  "find (\<lambda>m. m_id m = ''m1'') (members scenarioA) = Some alice
   \<and> appended scenarioA (snd (addContribution exUuid ''m1'' 1500 ''cash'' 100 [] scenarioA)) =
       [\<lparr> t_id = ''u'', t_date = 100, t_memberId = Some ''m1'', t_accountId = ''cash'',
          fund_type = PRINCIPAL, transaction_type = CONTRIBUTION, amount = 1000,
          related_loan_id = None, t_notes = ''Daily Share'' \<rparr>]"
proof -
  have h: "find (\<lambda>m. m_id m = ''m1'') (members scenarioA) = Some alice"
    by (simp add: scenarioA_def alice_def)
  have p: "advance_credit alice = 0 \<and> (1500::money) = 1500
          \<and> filter (\<lambda>t. t_memberId t = Some ''m1'' \<and> transaction_type t = CONTRIBUTION \<and>
                    t_date t = 100) (transactions scenarioA) = []
          \<and> list_all (\<lambda>l. l_memberId l = ''m1'' \<longrightarrow> status (getLoanDetails scenarioA l) = PAID)
               (loans scenarioA)"
    by (simp add: scenarioA_def alice_def)
  have u: "exUuid 0 = ''u''" by (simp add: exUuid_def)
  from addContribution_share[OF h, of exUuid 1500 "''cash''" 100 "[]"] p h
  show ?thesis unfolding u by simp
qed

lemma insort_key_map:
  "insort_key k (f x) (map f xs) = map f (insort_key (\<lambda>y. k (f y)) x xs)"
  by (induction xs) auto

lemma sort_key_map: "sort_key k (map f xs) = map f (sort_key (\<lambda>y. k (f y)) xs)"
  by (induction xs) (simp_all add: insort_key_map)

lemma unpaidLoans_spec:
  "unpaidLoans s memberId = map (\<lambda>l. (l, getLoanDetails s l)) (spec_unpaidLoans s memberId)"
  by (simp add: unpaidLoans_def spec_unpaidLoans_def filter_map sort_key_map o_def)

lemma unpaid_balance_pos:
  "status (getLoanDetails s l) \<noteq> PAID \<Longrightarrow> 0 < balance (getLoanDetails s l)"
  by (simp add: getLoanDetails_def Let_def split: if_splits)

lemma spec_unpaidLoans_set:
  "l \<in> set (spec_unpaidLoans s memberId) \<Longrightarrow>
     l \<in> set (loans s) \<and> l_memberId l = memberId \<and> 0 < balance (getLoanDetails s l)"
  by (auto simp: spec_unpaidLoans_def unpaid_balance_pos)

lemma repayLoop_waterfall:
  assumes "\<And>l. l \<in> set ls \<Longrightarrow> 0 < balance (getLoanDetails s l)"
  shows "map (\<lambda>t. (related_loan_id t, amount t, fund_type t))
           (fst (repayLoop uuid memberId accountId date k extra
                   (map (\<lambda>l. (l, getLoanDetails s l)) ls)))
         = map (\<lambda>(l, repaid). (Some (l_id l), repaid, PRINCIPAL)) (fst (spec_waterfall s extra ls))
       \<and> snd (repayLoop uuid memberId accountId date k extra
                   (map (\<lambda>l. (l, getLoanDetails s l)) ls))
         = snd (spec_waterfall s extra ls)"
  using assms
proof (induction ls arbitrary: k extra)
  case Nil
  show ?case by simp
next
  case (Cons l ls)
  have pos: "0 < balance (getLoanDetails s l)" by (rule Cons.prems) simp
  have rest: "\<And>x. x \<in> set ls \<Longrightarrow> 0 < balance (getLoanDetails s x)"
    by (rule Cons.prems) simp
  show ?case
  proof (cases "extra \<le> 0")
    case True
    then show ?thesis by simp
  next
    case False
    with pos have m: "0 < min extra (balance (getLoanDetails s l))" by simp
    from Cons.IH[OF rest, of "k + 1" "extra - min extra (balance (getLoanDetails s l))"]
    show ?thesis using False m by (simp add: Let_def autoRepaymentEntry_def)
  qed
qed

lemma spec_extra_nonneg: "0 \<le> spec_extra s member amt date"
  by (simp add: spec_extra_def spec_share_def)

lemma spec_waterfall_zero: "spec_waterfall s 0 ls = ([], 0)"
  by (cases ls) simp_all

lemma batchRepay_waterfall:
  assumes "0 \<le> extra"
  shows "map (\<lambda>t. (related_loan_id t, amount t, fund_type t))
           (fst (batchRepay uuid memberId accountId date k extra (unpaidLoans s memberId)))
         = map (\<lambda>(l, repaid). (Some (l_id l), repaid, PRINCIPAL))
             (fst (spec_waterfall s extra (spec_unpaidLoans s memberId)))
       \<and> snd (batchRepay uuid memberId accountId date k extra (unpaidLoans s memberId))
         = snd (spec_waterfall s extra (spec_unpaidLoans s memberId))"
proof (cases "0 < extra")
  case True
  have pos: "\<And>l. l \<in> set (spec_unpaidLoans s memberId) \<Longrightarrow> 0 < balance (getLoanDetails s l)"
    by (simp add: spec_unpaidLoans_set)
  from repayLoop_waterfall[OF pos, where uuid=uuid and memberId=memberId and accountId=accountId
      and date=date and k=k and extra=extra] True
  show ?thesis by (simp add: batchRepay_def unpaidLoans_spec)
next
  case False
  with assms have "extra = 0" by simp
  then show ?thesis by (simp add: batchRepay_def spec_waterfall_zero)
qed

text \<open>
  C2. With extra = pool - share, the LOAN_REPAYMENT entries appended are those of the
  waterfall over the member's loans that are not PAID at the current working date,
  oldest issue date first: while extra remains, one entry of fund pool PRINCIPAL of
  amount min extra balance referencing the loan, extra reduced by it. What is left over
  replaces the carried credit of the member.
\<close>

theorem addContribution_waterfall:
  assumes "find (\<lambda>m. m_id m = memberId) (members s) = Some member"
  shows "spec_extra s member amt date =
           (amt + advance_credit member) - spec_share s member amt date
     \<and> map (\<lambda>t. (related_loan_id t, amount t, fund_type t))
         (filter (\<lambda>t. transaction_type t = LOAN_REPAYMENT)
           (appended s (snd (addContribution uuid memberId amt accountId date note s))))
       = map (\<lambda>(l, repaid). (Some (l_id l), repaid, PRINCIPAL))
           (fst (spec_waterfall s (spec_extra s member amt date) (spec_unpaidLoans s memberId)))
     \<and> members (snd (addContribution uuid memberId amt accountId date note s)) =
         map (\<lambda>m. if m_id m = memberId
                   then m\<lparr> advance_credit :=
                          snd (spec_waterfall s (spec_extra s member amt date)
                                 (spec_unpaidLoans s memberId)) \<rparr>
                   else m)
           (members s)"
proof -
  let ?s' = "snd (addContribution uuid memberId amt accountId date note s)"
  let ?sh = "batchShare uuid memberId accountId date note (spec_share s member amt date)"
  let ?r = "batchRepay uuid memberId accountId date (length ?sh)
                 (spec_extra s member amt date) (unpaidLoans s memberId)"
  have app: "appended s ?s' = ?sh @ fst ?r" by (rule addContribution_appended[OF assms])
  have f1: "filter (\<lambda>t. transaction_type t = LOAN_REPAYMENT) ?sh = []"
    by (rule filter_none) (auto dest: batchShare_kind)
  have f2: "filter (\<lambda>t. transaction_type t = LOAN_REPAYMENT) (fst ?r) = fst ?r"
    by (rule filter_all) (rule batchRepay_kind)
  note w = batchRepay_waterfall[OF spec_extra_nonneg[of s member amt date], where uuid=uuid
      and memberId=memberId and accountId=accountId and date=date and k="length ?sh"]
  have c1: "spec_extra s member amt date =
           (amt + advance_credit member) - spec_share s member amt date"
    by (simp add: spec_extra_def spec_pool_def)
  have c2: "map (\<lambda>t. (related_loan_id t, amount t, fund_type t))
         (filter (\<lambda>t. transaction_type t = LOAN_REPAYMENT) (appended s ?s'))
       = map (\<lambda>(l, repaid). (Some (l_id l), repaid, PRINCIPAL))
           (fst (spec_waterfall s (spec_extra s member amt date) (spec_unpaidLoans s memberId)))"
    unfolding app filter_append f1 f2 using w by simp
  have c3: "members ?s' =
         map (\<lambda>m. if m_id m = memberId
                   then m\<lparr> advance_credit :=
                          snd (spec_waterfall s (spec_extra s member amt date)
                                 (spec_unpaidLoans s memberId)) \<rparr>
                   else m)
           (members s)"
    using w by (simp add: addContribution_found[OF assms] updateMember_def)
  show ?thesis using c1 c2 c3 by blast
qed

theorem addContribution_waterfall_witness:
  "find (\<lambda>m. m_id m = ''m1'') (members twoDebts) = Some (alice\<lparr> advance_credit := 25 \<rparr>)
   \<and> map (\<lambda>t. (related_loan_id t, amount t, fund_type t))
         (filter (\<lambda>t. transaction_type t = LOAN_REPAYMENT)
           (appended twoDebts (snd (addContribution exUuid ''m1'' 475 ''cash'' 100 [] twoDebts))))
       = [(Some ''L1'', 110, PRINCIPAL), (Some ''L2'', 220, PRINCIPAL)]
   \<and> members (snd (addContribution exUuid ''m1'' 475 ''cash'' 100 [] twoDebts)) =
       [alice\<lparr> advance_credit := 170 \<rparr>, bob]"
proof -
  have h: "find (\<lambda>m. m_id m = ''m1'') (members twoDebts) = Some (alice\<lparr> advance_credit := 25 \<rparr>)"
    by (simp add: twoDebts_def alice_def)
  have e: "spec_extra twoDebts (alice\<lparr> advance_credit := 25 \<rparr>) 475 100 = 500"
    by (simp add: spec_extra_def spec_share_def spec_pool_def spec_shareCapacity_def
        spec_alreadyContributedToday_def twoDebts_def alice_def shareEntry_def)
  have dN: "getLoanDetails twoDebts loanNew =
     \<lparr> interestAmount = 20, totalDue = 220, amountPaid = 0, balance = 220, status = OVERDUE \<rparr>"
    by (simp add: getLoanDetails_def Let_def sumAmounts_def isBeforeOrOnWorkingDate_def
        twoDebts_def loanNew_def shareEntry_def)
  have dO: "getLoanDetails twoDebts loanOld =
     \<lparr> interestAmount = 10, totalDue = 110, amountPaid = 0, balance = 110, status = OVERDUE \<rparr>"
    by (simp add: getLoanDetails_def Let_def sumAmounts_def isBeforeOrOnWorkingDate_def
        twoDebts_def loanOld_def shareEntry_def)
  have l: "loans twoDebts = [loanNew, loanOld]" by (simp add: twoDebts_def)
  have u: "spec_unpaidLoans twoDebts ''m1'' = [loanOld, loanNew]"
    unfolding spec_unpaidLoans_def l by (simp add: dN dO) (simp add: loanNew_def loanOld_def)
  have w: "spec_waterfall twoDebts 500 [loanOld, loanNew] = ([(loanOld, 110), (loanNew, 220)], 170)"
    by (simp add: dN dO Let_def)
  have m: "members twoDebts = [alice\<lparr> advance_credit := 25 \<rparr>, bob]" by (simp add: twoDebts_def)
  from addContribution_waterfall[OF h, of 475 100 exUuid "''cash''" "[]"] h
  show ?thesis unfolding e u w m by (simp add: loanOld_def loanNew_def alice_def bob_def)
qed

lemma repayLoop_bound:
  "t \<in> set (fst (repayLoop uuid memberId accountId date k extra lds)) \<Longrightarrow>
   \<exists>ld \<in> set lds. related_loan_id t = Some (l_id (fst ld)) \<and> 0 < amount t
                  \<and> amount t \<le> balance (snd ld)"
proof (induction lds arbitrary: k extra)
  case Nil
  then show ?case by simp
next
  case (Cons ld lds)
  show ?case
  proof (cases "extra \<le> 0")
    case True
    with Cons.prems show ?thesis by simp
  next
    case False
    note pos = this
    show ?thesis
    proof (cases "0 < min extra (balance (snd ld))")
      case True
      with pos Cons.prems have
        "t = autoRepaymentEntry (uuid k) memberId accountId date (min extra (balance (snd ld)))
               (l_id (fst ld))
         \<or> t \<in> set (fst (repayLoop uuid memberId accountId date (k + 1)
                       (extra - min extra (balance (snd ld))) lds))"
        by (simp add: Let_def)
      then show ?thesis
      proof
        assume "t = autoRepaymentEntry (uuid k) memberId accountId date
                      (min extra (balance (snd ld))) (l_id (fst ld))"
        with True show ?thesis by (simp add: autoRepaymentEntry_def)
      next
        assume "t \<in> set (fst (repayLoop uuid memberId accountId date (k + 1)
                       (extra - min extra (balance (snd ld))) lds))"
        from Cons.IH[OF this] show ?thesis by auto
      qed
    next
      case False
      with pos Cons.prems have
        "t \<in> set (fst (repayLoop uuid memberId accountId date k extra lds))"
        by (simp add: Let_def)
      from Cons.IH[OF this] show ?thesis by auto
    qed
  qed
qed

lemma repayLoop_distinct:
  "distinct (map (\<lambda>ld. l_id (fst ld)) lds) \<Longrightarrow>
   distinct (map related_loan_id (fst (repayLoop uuid memberId accountId date k extra lds)))"
proof (induction lds arbitrary: k extra)
  case Nil
  show ?case by simp
next
  case (Cons ld lds)
  have d: "distinct (map (\<lambda>ld. l_id (fst ld)) lds)" using Cons.prems by simp
  have fresh: "Some (l_id (fst ld)) \<notin>
        related_loan_id ` set (fst (repayLoop uuid memberId accountId date k' extra' lds))"
    for k' extra'
  proof
    assume "Some (l_id (fst ld)) \<in>
        related_loan_id ` set (fst (repayLoop uuid memberId accountId date k' extra' lds))"
    then obtain t where t: "t \<in> set (fst (repayLoop uuid memberId accountId date k' extra' lds))"
      and r: "related_loan_id t = Some (l_id (fst ld))" by auto
    from repayLoop_bound[OF t] r obtain x where x: "x \<in> set lds"
      and e: "l_id (fst x) = l_id (fst ld)"
      by auto
    from x have "l_id (fst x) \<in> (\<lambda>ld. l_id (fst ld)) ` set lds" by (rule imageI)
    with e Cons.prems show False by simp
  qed
  show ?case
    using Cons.IH[OF d] fresh
    by (simp add: Let_def autoRepaymentEntry_def)
qed

lemma unpaidLoans_distinct:
  assumes "distinct (map l_id (loans s))"
  shows "distinct (map (\<lambda>ld. l_id (fst ld)) (unpaidLoans s memberId))"
proof -
  let ?f = "filter (\<lambda>l. l_memberId l = memberId \<and> status (getLoanDetails s l) \<noteq> PAID) (loans s)"
  have "distinct (map l_id ?f)" using assms by (rule distinct_map_filter)
  then have "distinct ?f \<and> inj_on l_id (set ?f)" by (simp add: distinct_map)
  then have "distinct (map l_id (sort_key date_given ?f))" by (simp add: distinct_map)
  then show ?thesis by (simp add: unpaidLoans_spec spec_unpaidLoans_def o_def)
qed

lemma unpaidLoans_set:
  "ld \<in> set (unpaidLoans s memberId) \<Longrightarrow>
   fst ld \<in> set (loans s) \<and> l_memberId (fst ld) = memberId \<and> snd ld = getLoanDetails s (fst ld)"
  by (auto simp: unpaidLoans_def)

lemma getLoanDetails_more_entries:
  assumes "filter (\<lambda>t. related_loan_id t = Some (l_id l) \<and> transaction_type t = LOAN_REPAYMENT \<and>
                        isBeforeOrOnWorkingDate s (t_date t)) new = []"
  shows "getLoanDetails (s\<lparr> transactions := transactions s @ new \<rparr>) l = getLoanDetails s l"
  using assms by (simp add: getLoanDetails_def isBeforeOrOnWorkingDate_def)

lemma addContribution_repayments:
  assumes "t \<in> set (appended s (snd (addContribution uuid memberId amt accountId date note s)))"
    and "transaction_type t = LOAN_REPAYMENT"
  shows "\<exists>l \<in> set (loans s). l_memberId l = memberId \<and> related_loan_id t = Some (l_id l)
           \<and> 0 < amount t \<and> amount t \<le> balance (getLoanDetails s l)"
proof (cases "find (\<lambda>m. m_id m = memberId) (members s)")
  case None
  with assms show ?thesis by (simp add: addContribution_def appended_def)
next
  case (Some member)
  from assms have "t \<in> set (fst (batchRepay uuid memberId accountId date
       (length (batchShare uuid memberId accountId date note (spec_share s member amt date)))
       (spec_extra s member amt date) (unpaidLoans s memberId)))"
    unfolding addContribution_appended[OF Some] by (auto dest: batchShare_kind)
  then have "t \<in> set (fst (repayLoop uuid memberId accountId date
       (length (batchShare uuid memberId accountId date note (spec_share s member amt date)))
       (spec_extra s member amt date) (unpaidLoans s memberId)))"
    by (simp add: batchRepay_def split: if_splits)
  from repayLoop_bound[OF this] obtain ld where ld: "ld \<in> set (unpaidLoans s memberId)"
    and b: "related_loan_id t = Some (l_id (fst ld))" "0 < amount t" "amount t \<le> balance (snd ld)"
    by blast
  from unpaidLoans_set[OF ld] b show ?thesis by auto
qed

lemma addContribution_repayment_at_append:
  assumes dist: "distinct (map l_id (loans s))"
    and split: "appended s (snd (addContribution uuid memberId amt accountId date note s))
                 = pre @ t # post"
    and kind: "transaction_type t = LOAN_REPAYMENT"
  shows "\<exists>l \<in> set (loans s). related_loan_id t = Some (l_id l)
           \<and> amount t \<le> balance (getLoanDetails (s\<lparr> transactions := transactions s @ pre \<rparr>) l)"
proof (cases "find (\<lambda>m. m_id m = memberId) (members s)")
  case None
  with split show ?thesis by (simp add: addContribution_def appended_def)
next
  case (Some member)
  let ?sh = "batchShare uuid memberId accountId date note (spec_share s member amt date)"
  let ?rp = "fst (batchRepay uuid memberId accountId date (length ?sh)
                 (spec_extra s member amt date) (unpaidLoans s memberId))"
  have app: "pre @ t # post = ?sh @ ?rp"
    using split unfolding addContribution_appended[OF Some] by simp
  have t_in: "t \<in> set (appended s (snd (addContribution uuid memberId amt accountId date note s)))"
    unfolding split by simp
  from addContribution_repayments[OF t_in kind] obtain l where l: "l \<in> set (loans s)"
    and rel: "related_loan_id t = Some (l_id l)" and le: "amount t \<le> balance (getLoanDetails s l)"
    by blast
  have drp: "distinct (map related_loan_id ?rp)"
    using repayLoop_distinct[OF unpaidLoans_distinct[OF dist]]
    by (simp add: batchRepay_def)
  have t_not_sh: "t \<notin> set ?sh" using kind by (auto dest: batchShare_kind)
  from app obtain us where
    "(pre = ?sh @ us \<and> us @ t # post = ?rp) \<or> (pre @ us = ?sh \<and> t # post = us @ ?rp)"
    unfolding append_eq_append_conv2 by blast
  then obtain us' where pre: "pre = ?sh @ us'" and rp: "?rp = us' @ t # post"
  proof
    assume "pre = ?sh @ us \<and> us @ t # post = ?rp"
    then show ?thesis using that by simp
  next
    assume a: "pre @ us = ?sh \<and> t # post = us @ ?rp"
    show ?thesis
    proof (cases us)
      case Nil
      with a show ?thesis using that[of "[]"] by simp
    next
      case (Cons u us2)
      with a have "t \<in> set ?sh" by (metis list.sel(1) hd_append2 list.distinct(1) in_set_conv_decomp)
      with t_not_sh show ?thesis by simp
    qed
  qed
  have "related_loan_id t \<notin> related_loan_id ` set us'"
    using drp unfolding rp by simp
  then have none_us: "filter (\<lambda>x. related_loan_id x = Some (l_id l) \<and>
        transaction_type x = LOAN_REPAYMENT \<and> isBeforeOrOnWorkingDate s (t_date x)) us' = []"
    unfolding rel filter_empty_conv by (metis imageI)
  have none_sh: "filter (\<lambda>x. related_loan_id x = Some (l_id l) \<and>
        transaction_type x = LOAN_REPAYMENT \<and> isBeforeOrOnWorkingDate s (t_date x)) ?sh = []"
    by (auto simp: filter_empty_conv dest: batchShare_kind)
  have "getLoanDetails (s\<lparr> transactions := transactions s @ pre \<rparr>) l = getLoanDetails s l"
    by (rule getLoanDetails_more_entries) (simp add: pre none_us none_sh)
  with l rel le show ?thesis by auto
qed


text \<open>
  C4 (amended). Every LOAN_REPAYMENT entry that \<open>addContribution\<close> appends references a
  loan of the member, is positive and is at most the balance the loan evaluator gives
  that loan at the current working date before the call; when loan identifiers are
  distinct, it is also at most the loan's balance in the log as it stands when the entry
  is appended, the earlier entries of the batch included. (\<open>addRepayment\<close> appends the
  amount it is given, unchecked.)
\<close>

theorem addContribution_repayment_le_balance:
  "(\<forall>t \<in> set (appended s (snd (addContribution uuid memberId amt accountId date note s))).
      transaction_type t = LOAN_REPAYMENT \<longrightarrow>
        (\<exists>l \<in> set (loans s). l_memberId l = memberId \<and> related_loan_id t = Some (l_id l)
           \<and> 0 < amount t \<and> amount t \<le> balance (getLoanDetails s l)))
   \<and> (distinct (map l_id (loans s)) \<longrightarrow>
        (\<forall>pre t post.
           appended s (snd (addContribution uuid memberId amt accountId date note s)) = pre @ t # post
           \<and> transaction_type t = LOAN_REPAYMENT \<longrightarrow>
             (\<exists>l \<in> set (loans s). related_loan_id t = Some (l_id l)
                \<and> amount t \<le> balance (getLoanDetails (s\<lparr> transactions := transactions s @ pre \<rparr>) l))))"
  using addContribution_repayments addContribution_repayment_at_append by blast

lemma twoDebts_contribution:
  "appended twoDebts (snd (addContribution exUuid ''m1'' 475 ''cash'' 100 [] twoDebts)) =
     [autoRepaymentEntry ''u'' ''m1'' ''cash'' 100 110 ''L1'',
      autoRepaymentEntry ''uu'' ''m1'' ''cash'' 100 220 ''L2'']"
proof -
  have h: "find (\<lambda>m. m_id m = ''m1'') (members twoDebts) = Some (alice\<lparr> advance_credit := 25 \<rparr>)"
    by (simp add: twoDebts_def alice_def)
  have sh: "spec_share twoDebts (alice\<lparr> advance_credit := 25 \<rparr>) 475 100 = 0"
    by (simp add: spec_share_def spec_pool_def spec_shareCapacity_def
        spec_alreadyContributedToday_def twoDebts_def alice_def shareEntry_def)
  have e: "spec_extra twoDebts (alice\<lparr> advance_credit := 25 \<rparr>) 475 100 = 500"
    by (simp add: spec_extra_def sh spec_pool_def)
  have dN: "getLoanDetails twoDebts loanNew =
     \<lparr> interestAmount = 20, totalDue = 220, amountPaid = 0, balance = 220, status = OVERDUE \<rparr>"
    by (simp add: getLoanDetails_def Let_def sumAmounts_def isBeforeOrOnWorkingDate_def
        twoDebts_def loanNew_def shareEntry_def)
  have dO: "getLoanDetails twoDebts loanOld =
     \<lparr> interestAmount = 10, totalDue = 110, amountPaid = 0, balance = 110, status = OVERDUE \<rparr>"
    by (simp add: getLoanDetails_def Let_def sumAmounts_def isBeforeOrOnWorkingDate_def
        twoDebts_def loanOld_def shareEntry_def)
  have l: "loans twoDebts = [loanNew, loanOld]" by (simp add: twoDebts_def)
  have u: "unpaidLoans twoDebts ''m1'' =
      [(loanOld, getLoanDetails twoDebts loanOld), (loanNew, getLoanDetails twoDebts loanNew)]"
    unfolding unpaidLoans_def l by (simp add: dN dO) (simp add: loanNew_def loanOld_def)
  show ?thesis
    unfolding addContribution_appended[OF h] sh e u dN dO
    by (simp add: batchShare_def batchRepay_def Let_def exUuid_def loanOld_def loanNew_def)
qed

theorem addContribution_repayment_le_balance_witness:
  "distinct (map l_id (loans twoDebts))
   \<and> appended twoDebts (snd (addContribution exUuid ''m1'' 475 ''cash'' 100 [] twoDebts)) =
       [autoRepaymentEntry ''u'' ''m1'' ''cash'' 100 110 ''L1''] @
       autoRepaymentEntry ''uu'' ''m1'' ''cash'' 100 220 ''L2'' # []
   \<and> (\<exists>l \<in> set (loans twoDebts).
         related_loan_id (autoRepaymentEntry ''uu'' ''m1'' ''cash'' 100 220 ''L2'') = Some (l_id l)
         \<and> amount (autoRepaymentEntry ''uu'' ''m1'' ''cash'' 100 220 ''L2'')
             \<le> balance (getLoanDetails
                   (twoDebts\<lparr> transactions := transactions twoDebts @
                        [autoRepaymentEntry ''u'' ''m1'' ''cash'' 100 110 ''L1''] \<rparr>) l))"
proof -
  have d: "distinct (map l_id (loans twoDebts))"
    by (simp add: twoDebts_def loanOld_def loanNew_def)
  have a: "appended twoDebts (snd (addContribution exUuid ''m1'' 475 ''cash'' 100 [] twoDebts)) =
       [autoRepaymentEntry ''u'' ''m1'' ''cash'' 100 110 ''L1''] @
       autoRepaymentEntry ''uu'' ''m1'' ''cash'' 100 220 ''L2'' # []"
    by (simp add: twoDebts_contribution)
  have k: "transaction_type (autoRepaymentEntry ''uu'' ''m1'' ''cash'' 100 220 ''L2'') = LOAN_REPAYMENT"
    by (simp add: autoRepaymentEntry_def)
  from addContribution_repayment_le_balance[of twoDebts exUuid "''m1''" 475 "''cash''" 100 "[]"]
    d a k
  show ?thesis by blast
qed

theorem addRepayment_exceeds_balance:
  "find (\<lambda>l. l_id l = ''L1'') (loans twoDebts) = Some loanOld
   \<and> balance (getLoanDetails twoDebts loanOld) = 110
   \<and> appended twoDebts (snd (addRepayment exUuid ''L1'' 5000 ''cash'' 100 [] twoDebts)) =
       [\<lparr> t_id = ''u'', t_date = 100, t_memberId = Some ''m1'', t_accountId = ''cash'',
          fund_type = PRINCIPAL, transaction_type = LOAN_REPAYMENT, amount = 5000,
          related_loan_id = Some ''L1'', t_notes = ''Direct repayment'' \<rparr>]
   \<and> \<not> (5000 \<le> balance (getLoanDetails twoDebts loanOld))"
proof -
  have f: "find (\<lambda>l. l_id l = ''L1'') (loans twoDebts) = Some loanOld"
    by (simp add: twoDebts_def loanOld_def loanNew_def)
  have dO: "balance (getLoanDetails twoDebts loanOld) = 110"
    by (simp add: getLoanDetails_def Let_def sumAmounts_def isBeforeOrOnWorkingDate_def
        twoDebts_def loanOld_def shareEntry_def)
  have a: "appended twoDebts (snd (addRepayment exUuid ''L1'' 5000 ''cash'' 100 [] twoDebts)) =
       [\<lparr> t_id = ''u'', t_date = 100, t_memberId = Some ''m1'', t_accountId = ''cash'',
          fund_type = PRINCIPAL, transaction_type = LOAN_REPAYMENT, amount = 5000,
          related_loan_id = Some ''L1'', t_notes = ''Direct repayment'' \<rparr>]"
    by (simp add: addRepayment_def f appended_def exUuid_def) (simp add: loanOld_def)
  show ?thesis using f dO a by simp
qed

text \<open>For any known loan, \<open>addRepayment\<close> appends the amount it is given, whatever the balance.\<close>

lemma addRepayment_appends_amount_given:
  assumes "find (\<lambda>l. l_id l = loanId) (loans s) = Some loan"
  shows "addRepayment uuid loanId amt accountId date note s =
    (Undefined,
     s\<lparr> transactions := transactions s @
          [\<lparr> t_id = uuid 0, t_date = date, t_memberId = Some (l_memberId loan),
             t_accountId = accountId, fund_type = PRINCIPAL,
             transaction_type = LOAN_REPAYMENT, amount = amt,
             related_loan_id = Some loanId,
             t_notes = (if note = [] then ''Direct repayment'' else note) \<rparr>] \<rparr>)"
  using assms by (simp add: addRepayment_def)

text \<open>
  C8 (amended). With an unknown member \<open>addContribution\<close> returns the failure 'Member not
  found' and leaves the store as it was; with an unknown loan \<open>addRepayment\<close> leaves the
  store as it was and returns nothing, as on success.
\<close>

theorem not_found_no_change:
  "(find (\<lambda>m. m_id m = memberId) (members s) = None \<longrightarrow>
      addContribution uuid memberId amt accountId date note s = (Failure MemberNotFound, s))
   \<and> (find (\<lambda>l. l_id l = loanId) (loans s) = None \<longrightarrow>
      addRepayment uuid loanId amt accountId date note s = (Undefined, s))"
  by (simp add: addContribution_def addRepayment_def)

theorem not_found_no_change_witness:
  "find (\<lambda>m. m_id m = ''m9'') (members twoDebts) = None
   \<and> addContribution exUuid ''m9'' 50 ''cash'' 100 [] twoDebts = (Failure MemberNotFound, twoDebts)
   \<and> find (\<lambda>l. l_id l = ''L9'') (loans twoDebts) = None
   \<and> addRepayment exUuid ''L9'' 50 ''cash'' 100 [] twoDebts = (Undefined, twoDebts)"
proof -
  have m: "find (\<lambda>m. m_id m = ''m9'') (members twoDebts) = None"
    by (simp add: twoDebts_def alice_def bob_def)
  have l: "find (\<lambda>l. l_id l = ''L9'') (loans twoDebts) = None"
    by (simp add: twoDebts_def loanOld_def loanNew_def)
  from not_found_no_change[of "''m9''" twoDebts exUuid 50 "''cash''" 100 "[]" "''L9''"] m l
  show ?thesis by blast
qed

theorem addRepayment_unknown_loan_no_failure:
  "find (\<lambda>l. l_id l = ''L9'') (loans twoDebts) = None
   \<and> fst (addRepayment exUuid ''L9'' 50 ''cash'' 100 [] twoDebts) = Undefined
   \<and> \<not> isFailure (fst (addRepayment exUuid ''L9'' 50 ''cash'' 100 [] twoDebts))"
proof -
  have l: "find (\<lambda>l. l_id l = ''L9'') (loans twoDebts) = None"
    by (simp add: twoDebts_def loanOld_def loanNew_def)
  then show ?thesis by (simp add: addRepayment_def)
qed

section \<open>Loans, expenses, transfers, accounts and statistics\<close>

lemma total_bal_sum:
  "total_bal (getAccountBalance s accountId) =
     sum_list (map amount
       (filter (\<lambda>t. t_accountId t = accountId \<and> t_date t \<le> workingDate s) (transactions s)))"
proof -
  have split: "sum_list (map amount (filter (\<lambda>t. fund_type t = PRINCIPAL) xs)) +
               sum_list (map amount (filter (\<lambda>t. fund_type t = INTEREST) xs)) =
               sum_list (map amount xs)" for xs :: "Transaction list"
  proof (induction xs)
    case Nil
    show ?case by simp
  next
    case (Cons x xs)
    then show ?case by (cases "fund_type x") simp_all
  qed
  show ?thesis
    by (simp add: getAccountBalance_def Let_def sumAmounts_sum_list isBeforeOrOnWorkingDate_def split)
qed

lemma list_ex_unpaid:
  "list_ex (\<lambda>l. status (getLoanDetails s l) \<noteq> PAID) (filter (\<lambda>l. l_memberId l = memberId) (loans s))
   = (\<exists>l \<in> set (loans s). l_memberId l = memberId \<and> status (getLoanDetails s l) \<noteq> PAID)"
  by (auto simp: list_ex_iff)

lemma dueDate_no_spring_forward:
  assumes "tz (localOfUtc tz (parseDate date) + 30 * msPerDay) False \<le> tz (parseDate date) True"
    and "tz (parseDate date) True - tz (localOfUtc tz (parseDate date) + 30 * msPerDay) False
           < msPerDay"
  shows "isoDay (setDatePlus tz 30 (parseDate date)) = date + 30"
proof -
  let ?d = "tz (parseDate date) True - tz (localOfUtc tz (parseDate date) + 30 * msPerDay) False"
  have e: "setDatePlus tz 30 (parseDate date) = ?d + (date + 30) * 86400000"
    by (simp add: setDatePlus_def utcOfLocal_def localOfUtc_def parseDate_def msPerDay_def
        algebra_simps)
  have r: "0 \<le> ?d" "?d < 86400000" using assms by (simp_all add: msPerDay_def)
  have "(?d + (date + 30) * 86400000) div 86400000 = date + 30"
    using r by (simp add: div_pos_pos_trivial)
  then show ?thesis by (simp add: isoDay_def e msPerDay_def)
qed

text \<open>
  C5 (amended). \<open>addLoan\<close> fails with 'Insufficient funds in account', changing nothing,
  when the total balance of the source account as of the current working date (the sum
  of its entries dated on or before the working date, whatever today's date is) is less
  than the principal; otherwise it fails with the outstanding-loan message, changing
  nothing, when some loan of the member is not PAID; otherwise it adds one loan and
  appends one LOAN_GIVEN entry of fund pool PRINCIPAL of amount - principal on the source
  account. The due date of the loan is the UTC date of the instant that \<open>setDate\<close> reaches
  from midnight UTC of the given date by 30 days of the local clock; it is the given date
  plus 30 days when the offset of the local clock from UTC is not greater at the end of
  those 30 days than at their start (by less than a day), as on any clock that does not
  spring forward in between.
\<close>

theorem addLoan_spec:
  "total_bal (getAccountBalance s accountId) =
     sum_list (map amount
       (filter (\<lambda>t. t_accountId t = accountId \<and> t_date t \<le> workingDate s) (transactions s)))
   \<and> (total_bal (getAccountBalance s accountId) < amt \<longrightarrow>
        addLoan uuid tz lError memberId amt accountId date rate s = (Failure InsufficientFunds, s))
   \<and> (\<not> total_bal (getAccountBalance s accountId) < amt
        \<and> (\<exists>l \<in> set (loans s). l_memberId l = memberId \<and> status (getLoanDetails s l) \<noteq> PAID) \<longrightarrow>
        addLoan uuid tz lError memberId amt accountId date rate s = (Failure OutstandingLoan, s))
   \<and> (\<not> total_bal (getAccountBalance s accountId) < amt
        \<and> \<not> (\<exists>l \<in> set (loans s). l_memberId l = memberId \<and> status (getLoanDetails s l) \<noteq> PAID) \<longrightarrow>
        addLoan uuid tz lError memberId amt accountId date rate s =
          (if lError then Failure DatabaseError else Null,
           s\<lparr> loans := loans s @
                 [\<lparr> l_id = uuid 0, l_memberId = memberId, amount_given = amt,
                    interest_rate = rate, date_given = date,
                    due_date = isoDay (setDatePlus tz 30 (parseDate date)) \<rparr>],
              transactions := transactions s @
                 [\<lparr> t_id = uuid 1, t_date = date, t_memberId = Some memberId,
                    t_accountId = accountId, fund_type = PRINCIPAL,
                    transaction_type = LOAN_GIVEN, amount = - amt, related_loan_id = None,
                    t_notes = ''Loan given to member'' \<rparr>] \<rparr>))
   \<and> isoDay (setDatePlus tz 30 (parseDate date)) =
       (date * 86400000 + tz (date * 86400000) True + 30 * 86400000
          - tz (date * 86400000 + tz (date * 86400000) True + 30 * 86400000) False)
       div 86400000
   \<and> (tz (localOfUtc tz (parseDate date) + 30 * msPerDay) False \<le> tz (parseDate date) True
        \<and> tz (parseDate date) True - tz (localOfUtc tz (parseDate date) + 30 * msPerDay) False
             < msPerDay \<longrightarrow>
        isoDay (setDatePlus tz 30 (parseDate date)) = date + 30)"
proof -
  have a: "total_bal (getAccountBalance s accountId) < amt \<Longrightarrow>
        addLoan uuid tz lError memberId amt accountId date rate s = (Failure InsufficientFunds, s)"
    by (simp add: addLoan_def)
  have b: "\<not> total_bal (getAccountBalance s accountId) < amt
        \<and> (\<exists>l \<in> set (loans s). l_memberId l = memberId \<and> status (getLoanDetails s l) \<noteq> PAID) \<Longrightarrow>
        addLoan uuid tz lError memberId amt accountId date rate s = (Failure OutstandingLoan, s)"
    unfolding addLoan_def Let_def list_ex_unpaid by simp
  have c: "\<not> total_bal (getAccountBalance s accountId) < amt
        \<and> \<not> (\<exists>l \<in> set (loans s). l_memberId l = memberId \<and> status (getLoanDetails s l) \<noteq> PAID) \<Longrightarrow>
        addLoan uuid tz lError memberId amt accountId date rate s =
          (if lError then Failure DatabaseError else Null,
           s\<lparr> loans := loans s @
                 [\<lparr> l_id = uuid 0, l_memberId = memberId, amount_given = amt,
                    interest_rate = rate, date_given = date,
                    due_date = isoDay (setDatePlus tz 30 (parseDate date)) \<rparr>],
              transactions := transactions s @
                 [\<lparr> t_id = uuid 1, t_date = date, t_memberId = Some memberId,
                    t_accountId = accountId, fund_type = PRINCIPAL,
                    transaction_type = LOAN_GIVEN, amount = - amt, related_loan_id = None,
                    t_notes = ''Loan given to member'' \<rparr>] \<rparr>)"
    unfolding addLoan_def Let_def list_ex_unpaid by simp
  have d: "isoDay (setDatePlus tz 30 (parseDate date)) =
       (date * 86400000 + tz (date * 86400000) True + 30 * 86400000
          - tz (date * 86400000 + tz (date * 86400000) True + 30 * 86400000) False)
       div 86400000"
    by (simp add: isoDay_def setDatePlus_def utcOfLocal_def localOfUtc_def parseDate_def
        msPerDay_def)
  have e: "tz (localOfUtc tz (parseDate date) + 30 * msPerDay) False \<le> tz (parseDate date) True
        \<and> tz (parseDate date) True - tz (localOfUtc tz (parseDate date) + 30 * msPerDay) False
             < msPerDay \<Longrightarrow>
        isoDay (setDatePlus tz 30 (parseDate date)) = date + 30"
    by (simp add: dueDate_no_spring_forward)
  show ?thesis using total_bal_sum a b c d e by blast
qed

lemma funded_cash_total: "total_bal (getAccountBalance funded ''cash'') = 5300"
  by (simp add: total_bal_sum funded_def openingEntry_def)

theorem addLoan_spec_witness:
  "total_bal (getAccountBalance scenarioA ''cash'') < 500
   \<and> addLoan exUuid utcClock False ''m1'' 500 ''cash'' 100 10 scenarioA =
       (Failure InsufficientFunds, scenarioA)
   \<and> \<not> total_bal (getAccountBalance (funded\<lparr> loans := [loanOld] \<rparr>) ''cash'') < 500
   \<and> addLoan exUuid utcClock False ''m1'' 500 ''cash'' 100 10 (funded\<lparr> loans := [loanOld] \<rparr>) =
       (Failure OutstandingLoan, funded\<lparr> loans := [loanOld] \<rparr>)
   \<and> \<not> total_bal (getAccountBalance funded ''cash'') < 500
   \<and> addLoan exUuid utcClock False ''m1'' 500 ''cash'' 100 10 funded =
       (Null,
        funded\<lparr> loans := loans funded @
                 [\<lparr> l_id = ''u'', l_memberId = ''m1'', amount_given = 500,
                    interest_rate = 10, date_given = 100, due_date = 130 \<rparr>],
              transactions := transactions funded @
                 [\<lparr> t_id = ''uu'', t_date = 100, t_memberId = Some ''m1'',
                    t_accountId = ''cash'', fund_type = PRINCIPAL,
                    transaction_type = LOAN_GIVEN, amount = - 500, related_loan_id = None,
                    t_notes = ''Loan given to member'' \<rparr>] \<rparr>)"
proof -
  have a: "total_bal (getAccountBalance scenarioA ''cash'') < 500"
    by (simp add: total_bal_sum scenarioA_def)
  have b1: "\<not> total_bal (getAccountBalance (funded\<lparr> loans := [loanOld] \<rparr>) ''cash'') < 500"
    by (simp add: total_bal_sum funded_def openingEntry_def)
  have b2: "\<exists>l \<in> set (loans (funded\<lparr> loans := [loanOld] \<rparr>)).
              l_memberId l = ''m1'' \<and> status (getLoanDetails (funded\<lparr> loans := [loanOld] \<rparr>) l) \<noteq> PAID"
    by (simp add: getLoanDetails_def Let_def sumAmounts_def isBeforeOrOnWorkingDate_def
        funded_def openingEntry_def loanOld_def)
  have c1: "\<not> total_bal (getAccountBalance funded ''cash'') < 500"
    by (simp add: funded_cash_total)
  have c2: "\<not> (\<exists>l \<in> set (loans funded).
              l_memberId l = ''m1'' \<and> status (getLoanDetails funded l) \<noteq> PAID)"
    by (simp add: funded_def)
  have z: "utcClock (localOfUtc utcClock (parseDate 100) + 30 * msPerDay) False
             \<le> utcClock (parseDate 100) True
        \<and> utcClock (parseDate 100) True
             - utcClock (localOfUtc utcClock (parseDate 100) + 30 * msPerDay) False < msPerDay"
    by (simp add: utcClock_def msPerDay_def)
  have u: "exUuid 0 = ''u''" "exUuid 1 = ''uu''" by (simp_all add: exUuid_def)
  from addLoan_spec[of scenarioA "''cash''" 500 exUuid utcClock False "''m1''" 100 10] a
  have r1: "addLoan exUuid utcClock False ''m1'' 500 ''cash'' 100 10 scenarioA =
              (Failure InsufficientFunds, scenarioA)" by blast
  from addLoan_spec[of "funded\<lparr> loans := [loanOld] \<rparr>" "''cash''" 500 exUuid utcClock False
      "''m1''" 100 10] b1 b2
  have r2: "addLoan exUuid utcClock False ''m1'' 500 ''cash'' 100 10 (funded\<lparr> loans := [loanOld] \<rparr>) =
       (Failure OutstandingLoan, funded\<lparr> loans := [loanOld] \<rparr>)" by blast
  note t = addLoan_spec[of funded "''cash''" 500 exUuid utcClock False "''m1''" 100 10]
  from t z have due: "isoDay (setDatePlus utcClock 30 (parseDate 100)) = 100 + 30" by blast
  from t c1 c2
  have "addLoan exUuid utcClock False ''m1'' 500 ''cash'' 100 10 funded =
          (if False then Failure DatabaseError else Null,
           funded\<lparr> loans := loans funded @
                 [\<lparr> l_id = exUuid 0, l_memberId = ''m1'', amount_given = 500,
                    interest_rate = 10, date_given = 100,
                    due_date = isoDay (setDatePlus utcClock 30 (parseDate 100)) \<rparr>],
              transactions := transactions funded @
                 [\<lparr> t_id = exUuid 1, t_date = 100, t_memberId = Some ''m1'',
                    t_accountId = ''cash'', fund_type = PRINCIPAL,
                    transaction_type = LOAN_GIVEN, amount = - 500, related_loan_id = None,
                    t_notes = ''Loan given to member'' \<rparr>] \<rparr>)" by blast
  then have r3: "addLoan exUuid utcClock False ''m1'' 500 ''cash'' 100 10 funded =
       (Null,
        funded\<lparr> loans := loans funded @
                 [\<lparr> l_id = ''u'', l_memberId = ''m1'', amount_given = 500,
                    interest_rate = 10, date_given = 100, due_date = 130 \<rparr>],
              transactions := transactions funded @
                 [\<lparr> t_id = ''uu'', t_date = 100, t_memberId = Some ''m1'',
                    t_accountId = ''cash'', fund_type = PRINCIPAL,
                    transaction_type = LOAN_GIVEN, amount = - 500, related_loan_id = None,
                    t_notes = ''Loan given to member'' \<rparr>] \<rparr>)"
    unfolding u due by simp
  show ?thesis using a b1 c1 r1 r2 r3 by blast
qed

text \<open>
  Two inputs at which the claim as worded fails. Seen from working date 5, money entered
  on day 8 does not count, although it is there as of day 10, the day of the loan. And
  on the New York clock a loan given on 2024-03-01 (day 19783) falls due on day 19812,
  29 days later, since the clock springs forward on 2024-03-10.
\<close>

theorem addLoan_working_date_and_due_date:
  "workingDate backDated = 5
   \<and> total_bal (getAccountBalance (backDated\<lparr> workingDate := 10 \<rparr>) ''cash'') = 5000
   \<and> loans backDated = []
   \<and> addLoan exUuid utcClock False ''m1'' 500 ''cash'' 10 10 backDated =
       (Failure InsufficientFunds, backDated)
   \<and> loans (snd (addLoan exUuid newYork2024 False ''m1'' 500 ''cash'' 19783 10 funded)) =
       [\<lparr> l_id = ''u'', l_memberId = ''m1'', amount_given = 500, interest_rate = 10,
          date_given = 19783, due_date = 19812 \<rparr>]
   \<and> (19812::int) = 19783 + 29"
proof -
  have a: "total_bal (getAccountBalance (backDated\<lparr> workingDate := 10 \<rparr>) ''cash'') = 5000"
    by (simp add: total_bal_sum backDated_def openingEntry_def)
  have b: "total_bal (getAccountBalance backDated ''cash'') = 0"
    by (simp add: total_bal_sum backDated_def openingEntry_def)
  have c: "addLoan exUuid utcClock False ''m1'' 500 ''cash'' 10 10 backDated =
             (Failure InsufficientFunds, backDated)"
    by (simp add: addLoan_def b)
  have due: "isoDay (setDatePlus newYork2024 30 (parseDate 19783)) = 19812"
    by (simp add: isoDay_def setDatePlus_def utcOfLocal_def localOfUtc_def parseDate_def
        newYork2024_def msPerDay_def)
  have l: "loans funded = []" by (simp add: funded_def)
  have d: "loans (snd (addLoan exUuid newYork2024 False ''m1'' 500 ''cash'' 19783 10 funded)) =
       [\<lparr> l_id = ''u'', l_memberId = ''m1'', amount_given = 500, interest_rate = 10,
          date_given = 19783, due_date = 19812 \<rparr>]"
    by (simp add: addLoan_def Let_def funded_cash_total l due exUuid_def)
  show ?thesis using a c d by (simp add: backDated_def)
qed

lemma addExpense_available:
  "sumAmounts (filter (\<lambda>t. fund_type t = INTEREST \<and> amount t > 0 \<and>
                                    isBeforeOrOnWorkingDate s (t_date t)) (transactions s))
   - sumAmounts (filter (\<lambda>t. transaction_type t = EXPENSE \<and> fund_type t = INTEREST \<and>
                                    isBeforeOrOnWorkingDate s (t_date t)) (transactions s))
   = spec_availableInterest s"
  by (simp add: spec_availableInterest_def sumAmounts_sum_list isBeforeOrOnWorkingDate_def)

text \<open>
  C6. \<open>addExpense\<close> fails, appending nothing, exactly when the available interest (the
  positive INTEREST entries minus the EXPENSE entries of fund pool INTEREST, both up to
  the working date) is less than the amount; otherwise it appends one EXPENSE entry of
  fund pool INTEREST of amount - amount.
\<close>

theorem addExpense_spec:
  "(isFailure (fst (addExpense uuid amt accountId date note s)) \<longleftrightarrow> spec_availableInterest s < amt)
   \<and> (spec_availableInterest s < amt \<longrightarrow>
        addExpense uuid amt accountId date note s =
          (Failure (InsufficientInterestFunds (spec_availableInterest s)), s))
   \<and> (\<not> spec_availableInterest s < amt \<longrightarrow>
        addExpense uuid amt accountId date note s =
          (Null,
           s\<lparr> transactions := transactions s @
                [\<lparr> t_id = uuid 0, t_date = date, t_memberId = None, t_accountId = accountId,
                   fund_type = INTEREST, transaction_type = EXPENSE, amount = - amt,
                   related_loan_id = None, t_notes = note \<rparr>] \<rparr>))"
  unfolding addExpense_def Let_def addExpense_available by simp

theorem addExpense_spec_witness:
  "spec_availableInterest funded = 300
   \<and> addExpense exUuid 400 ''cash'' 100 ''Stationery'' funded =
       (Failure (InsufficientInterestFunds 300), funded)
   \<and> addExpense exUuid 300 ''cash'' 100 ''Stationery'' funded =
       (Null,
        funded\<lparr> transactions := transactions funded @
                [\<lparr> t_id = ''u'', t_date = 100, t_memberId = None, t_accountId = ''cash'',
                   fund_type = INTEREST, transaction_type = EXPENSE, amount = - 300,
                   related_loan_id = None, t_notes = ''Stationery'' \<rparr>] \<rparr>)"
proof -
  have a: "spec_availableInterest funded = 300"
    by (simp add: spec_availableInterest_def funded_def openingEntry_def)
  have u: "exUuid 0 = ''u''" by (simp add: exUuid_def)
  from addExpense_spec[of exUuid 400 "''cash''" 100 "''Stationery''" funded]
  have r1: "addExpense exUuid 400 ''cash'' 100 ''Stationery'' funded =
       (Failure (InsufficientInterestFunds 300), funded)" unfolding a by simp
  from addExpense_spec[of exUuid 300 "''cash''" 100 "''Stationery''" funded]
  have r2: "addExpense exUuid 300 ''cash'' 100 ''Stationery'' funded =
       (Null,
        funded\<lparr> transactions := transactions funded @
                [\<lparr> t_id = ''u'', t_date = 100, t_memberId = None, t_accountId = ''cash'',
                   fund_type = INTEREST, transaction_type = EXPENSE, amount = - 300,
                   related_loan_id = None, t_notes = ''Stationery'' \<rparr>] \<rparr>)"
    unfolding a u by simp
  show ?thesis using a r1 r2 by blast
qed


lemma getAccountBalance_append:
  "principal (getAccountBalance (s\<lparr> transactions := transactions s @ new \<rparr>) a) =
     principal (getAccountBalance s a) +
     sum_list (map amount (filter (\<lambda>t. t_accountId t = a \<and> t_date t \<le> workingDate s \<and>
                                        fund_type t = PRINCIPAL) new))
   \<and> interest (getAccountBalance (s\<lparr> transactions := transactions s @ new \<rparr>) a) =
     interest (getAccountBalance s a) +
     sum_list (map amount (filter (\<lambda>t. t_accountId t = a \<and> t_date t \<le> workingDate s \<and>
                                        fund_type t = INTEREST) new))"
  by (simp add: getAccountBalance_def Let_def sumAmounts_sum_list isBeforeOrOnWorkingDate_def
      conj_commute conj_left_commute)

lemma poolBalance_append:
  "poolBalance f (getAccountBalance (s\<lparr> transactions := transactions s @ new \<rparr>) a) =
     poolBalance f (getAccountBalance s a) +
     sum_list (map amount (filter (\<lambda>t. t_accountId t = a \<and> t_date t \<le> workingDate s \<and>
                                        fund_type t = f) new))"
  by (cases f) (simp_all add: poolBalance_def getAccountBalance_append)

lemma getAccountBalance_append_hidden:
  assumes "filter (\<lambda>t. t_accountId t = a \<and> t_date t \<le> workingDate s) new = []"
  shows "getAccountBalance (s\<lparr> transactions := transactions s @ new \<rparr>) a = getAccountBalance s a"
  using assms by (simp add: getAccountBalance_def isBeforeOrOnWorkingDate_def)

text \<open>
  C7 (amended). A transfer appends exactly two TRANSFER entries, - amount on the source
  and + amount on the destination account, with the same fund pool and date, summing to
  zero. When the two accounts differ and the date is not after the working date, the
  balance of that fund pool falls by the amount on the source and rises by it on the
  destination; a transfer dated after the working date leaves every balance as it was.
\<close>

theorem addTransfer_spec:
  "fst (addTransfer uuid fromAccountId toAccountId amt fundType date note s) = Undefined
   \<and> transactions (snd (addTransfer uuid fromAccountId toAccountId amt fundType date note s)) =
       transactions s @
       [\<lparr> t_id = uuid 0, t_date = date, t_memberId = None, t_accountId = fromAccountId,
          fund_type = fundType, transaction_type = TRANSFER, amount = - amt,
          related_loan_id = None,
          t_notes = ''Transfer to '' @ accountNameOf s toAccountId @ '': '' @ note \<rparr>,
        \<lparr> t_id = uuid 1, t_date = date, t_memberId = None, t_accountId = toAccountId,
          fund_type = fundType, transaction_type = TRANSFER, amount = amt,
          related_loan_id = None,
          t_notes = ''Transfer from '' @ accountNameOf s fromAccountId @ '': '' @ note \<rparr>]
   \<and> sum_list (map amount
         (appended s (snd (addTransfer uuid fromAccountId toAccountId amt fundType date note s)))) = 0
   \<and> (fromAccountId \<noteq> toAccountId \<and> date \<le> workingDate s \<longrightarrow>
        poolBalance fundType
          (getAccountBalance
             (snd (addTransfer uuid fromAccountId toAccountId amt fundType date note s))
             fromAccountId)
          = poolBalance fundType (getAccountBalance s fromAccountId) - amt
        \<and> poolBalance fundType
          (getAccountBalance
             (snd (addTransfer uuid fromAccountId toAccountId amt fundType date note s))
             toAccountId)
          = poolBalance fundType (getAccountBalance s toAccountId) + amt)
   \<and> (workingDate s < date \<longrightarrow>
        getAccountBalance
          (snd (addTransfer uuid fromAccountId toAccountId amt fundType date note s)) a
        = getAccountBalance s a)"
proof -
  let ?r = "addTransfer uuid fromAccountId toAccountId amt fundType date note s"
  let ?e1 = "\<lparr> t_id = uuid 0, t_date = date, t_memberId = None, t_accountId = fromAccountId,
          fund_type = fundType, transaction_type = TRANSFER, amount = - amt,
          related_loan_id = None,
          t_notes = ''Transfer to '' @ accountNameOf s toAccountId @ '': '' @ note \<rparr>"
  let ?e2 = "\<lparr> t_id = uuid 1, t_date = date, t_memberId = None, t_accountId = toAccountId,
          fund_type = fundType, transaction_type = TRANSFER, amount = amt,
          related_loan_id = None,
          t_notes = ''Transfer from '' @ accountNameOf s fromAccountId @ '': '' @ note \<rparr>"
  have r: "?r = (Undefined, s\<lparr> transactions := transactions s @ [?e1, ?e2] \<rparr>)"
    by (simp add: addTransfer_def Let_def)
  have c1: "fst ?r = Undefined" by (simp add: r)
  have c2: "transactions (snd ?r) = transactions s @ [?e1, ?e2]" by (simp add: r)
  have c3: "sum_list (map amount (appended s (snd ?r))) = 0" by (simp add: r appended_def)
  have c4: "poolBalance fundType (getAccountBalance (snd ?r) fromAccountId)
          = poolBalance fundType (getAccountBalance s fromAccountId) - amt
        \<and> poolBalance fundType (getAccountBalance (snd ?r) toAccountId)
          = poolBalance fundType (getAccountBalance s toAccountId) + amt"
    if "fromAccountId \<noteq> toAccountId \<and> date \<le> workingDate s"
    using that unfolding r snd_conv poolBalance_append by auto
  have c5: "getAccountBalance (snd ?r) a = getAccountBalance s a" if "workingDate s < date"
    unfolding r snd_conv by (rule getAccountBalance_append_hidden) (use that in simp)
  show ?thesis using c1 c2 c3 c4 c5 by blast
qed

theorem addTransfer_spec_witness:
  "''cash'' \<noteq> ''bank'' \<and> (50::int) \<le> workingDate funded
   \<and> poolBalance PRINCIPAL (getAccountBalance funded ''cash'') = 5000
   \<and> poolBalance PRINCIPAL (getAccountBalance funded ''bank'') = 1 / 100
   \<and> poolBalance PRINCIPAL
        (getAccountBalance (snd (addTransfer exUuid ''cash'' ''bank'' 200 PRINCIPAL 50 [] funded)) ''cash'')
       = 4800
   \<and> poolBalance PRINCIPAL
        (getAccountBalance (snd (addTransfer exUuid ''cash'' ''bank'' 200 PRINCIPAL 50 [] funded)) ''bank'')
       = 200 + 1 / 100
   \<and> workingDate funded < 150
   \<and> getAccountBalance (snd (addTransfer exUuid ''cash'' ''bank'' 200 PRINCIPAL 150 [] funded)) ''cash''
       = getAccountBalance funded ''cash''"
proof -
  have w: "workingDate funded = 100" by (simp add: funded_def)
  have a: "poolBalance PRINCIPAL (getAccountBalance funded ''cash'') = 5000"
    by (simp add: poolBalance_def getAccountBalance_def Let_def sumAmounts_def
        isBeforeOrOnWorkingDate_def funded_def openingEntry_def)
  have b: "poolBalance PRINCIPAL (getAccountBalance funded ''bank'') = 1 / 100"
    by (simp add: poolBalance_def getAccountBalance_def Let_def sumAmounts_def
        isBeforeOrOnWorkingDate_def funded_def openingEntry_def)
  from addTransfer_spec[of exUuid "''cash''" "''bank''" 200 PRINCIPAL 50 "[]" funded]
  have r1: "poolBalance PRINCIPAL
        (getAccountBalance (snd (addTransfer exUuid ''cash'' ''bank'' 200 PRINCIPAL 50 [] funded)) ''cash'')
       = 4800
   \<and> poolBalance PRINCIPAL
        (getAccountBalance (snd (addTransfer exUuid ''cash'' ''bank'' 200 PRINCIPAL 50 [] funded)) ''bank'')
       = 200 + 1 / 100"
    unfolding a b w by simp
  from addTransfer_spec[of exUuid "''cash''" "''bank''" 200 PRINCIPAL 150 "[]" funded "''cash''"]
  have r2: "getAccountBalance (snd (addTransfer exUuid ''cash'' ''bank'' 200 PRINCIPAL 150 [] funded)) ''cash''
       = getAccountBalance funded ''cash''"
    unfolding w by simp
  show ?thesis using a b r1 r2 w by simp
qed

theorem addTransfer_balance_unchanged:
  "principal (getAccountBalance funded ''cash'') = 5000
   \<and> principal (getAccountBalance
        (snd (addTransfer exUuid ''cash'' ''cash'' 200 PRINCIPAL 50 [] funded)) ''cash'') = 5000
   \<and> workingDate funded = 100
   \<and> principal (getAccountBalance
        (snd (addTransfer exUuid ''cash'' ''bank'' 200 PRINCIPAL 150 [] funded)) ''cash'') = 5000"
  by (simp add: addTransfer_def Let_def getAccountBalance_def sumAmounts_def
      isBeforeOrOnWorkingDate_def funded_def openingEntry_def)


text \<open>A transfer from an account to itself leaves every balance as it was.\<close>

lemma addTransfer_self_balance_unchanged:
  "getAccountBalance (snd (addTransfer uuid a a amt fundType date note s)) b =
     getAccountBalance s b"
  by (cases fundType)
     (simp_all add: addTransfer_def Let_def getAccountBalance_def sumAmounts_sum_list
        isBeforeOrOnWorkingDate_def)

text \<open>
  C9. An account is deleted exactly when the absolute value of the sum of all its
  entries, of every date, is at most one hundredth; then no account of that identifier
  remains and nothing else changes. Otherwise the call returns the refusal message with
  that sum and the store is unchanged.
\<close>

theorem deleteAccount_spec:
  "(\<bar>sum_list (map amount (filter (\<lambda>t. t_accountId t = i) (transactions s)))\<bar> \<le> 1 / 100 \<longrightarrow>
      deleteAccount i s = (Null, s\<lparr> accounts := filter (\<lambda>a. a_id a \<noteq> i) (accounts s) \<rparr>)
      \<and> i \<notin> a_id ` set (accounts (snd (deleteAccount i s))))
   \<and> (\<not> \<bar>sum_list (map amount (filter (\<lambda>t. t_accountId t = i) (transactions s)))\<bar> \<le> 1 / 100 \<longrightarrow>
      deleteAccount i s =
        (Failure (CannotDeleteAccount
           (sum_list (map amount (filter (\<lambda>t. t_accountId t = i) (transactions s))))), s))"
  by (auto simp: deleteAccount_def Let_def sumAmounts_sum_list)

theorem deleteAccount_spec_witness:
  "\<bar>sum_list (map amount (filter (\<lambda>t. t_accountId t = ''bank'') (transactions funded)))\<bar> \<le> 1 / 100
   \<and> deleteAccount ''bank'' funded = (Null, funded\<lparr> accounts := [cashAccount] \<rparr>)
   \<and> \<not> \<bar>sum_list (map amount (filter (\<lambda>t. t_accountId t = ''cash'') (transactions funded)))\<bar> \<le> 1 / 100
   \<and> deleteAccount ''cash'' funded = (Failure (CannotDeleteAccount 5300), funded)"
proof -
  have b: "sum_list (map amount (filter (\<lambda>t. t_accountId t = ''bank'') (transactions funded))) = 1 / 100"
    by (simp add: funded_def openingEntry_def)
  have c: "sum_list (map amount (filter (\<lambda>t. t_accountId t = ''cash'') (transactions funded))) = 5300"
    by (simp add: funded_def openingEntry_def)
  have f: "filter (\<lambda>a. a_id a \<noteq> ''bank'') (accounts funded) = [cashAccount]"
    by (simp add: funded_def cashAccount_def bankAccount_def)
  from deleteAccount_spec[of "''bank''" funded]
  have r1: "deleteAccount ''bank'' funded = (Null, funded\<lparr> accounts := [cashAccount] \<rparr>)"
    unfolding b f by simp
  from deleteAccount_spec[of "''cash''" funded]
  have r2: "deleteAccount ''cash'' funded = (Failure (CannotDeleteAccount 5300), funded)"
    unfolding c by simp
  show ?thesis unfolding b c using r1 r2 by simp
qed

lemma foldl_countLoan:
  "foldl (countLoan s) acc ls =
     (fst acc + length (filter (\<lambda>l. status (getLoanDetails s l) \<noteq> PAID) ls),
      snd acc + sum_list (map (\<lambda>l. balance (getLoanDetails s l))
                            (filter (\<lambda>l. status (getLoanDetails s l) \<noteq> PAID) ls)))"
  by (induction ls arbitrary: acc) (simp_all add: countLoan_def Let_def add.assoc)

lemma getLoanDetails_loans_update: "getLoanDetails (s\<lparr> loans := ls \<rparr>) l = getLoanDetails s l"
  by (simp add: getLoanDetails_def isBeforeOrOnWorkingDate_def)

lemma memberStats_loans:
  "activeLoans (getMemberStats s memberId) =
     length (filter (\<lambda>l. l_memberId l = memberId \<and> date_given l \<le> workingDate s \<and>
                          status (getLoanDetails s l) \<noteq> PAID) (loans s))
   \<and> totalLoanBalance (getMemberStats s memberId) =
     sum_list (map (\<lambda>l. balance (getLoanDetails s l))
       (filter (\<lambda>l. l_memberId l = memberId \<and> date_given l \<le> workingDate s \<and>
                     status (getLoanDetails s l) \<noteq> PAID) (loans s)))"
proof -
  have f: "filter (\<lambda>l. status (getLoanDetails s l) \<noteq> PAID)
             (filter (\<lambda>l. l_memberId l = memberId \<and> isBeforeOrOnWorkingDate s (date_given l)) (loans s))
           = filter (\<lambda>l. l_memberId l = memberId \<and> date_given l \<le> workingDate s \<and>
                          status (getLoanDetails s l) \<noteq> PAID) (loans s)"
    unfolding filter_filter isBeforeOrOnWorkingDate_def
    by (rule arg_cong[where f="\<lambda>p. filter p (loans s)"]) auto
  show ?thesis
    unfolding getMemberStats_def Let_def foldl_countLoan f by simp
qed

text \<open>
  C10. The member statistics count as active, and add to the total loan balance, exactly
  the member's loans issued on or before the working date whose status is not PAID; a
  loan issued after the working date changes neither figure, whatever its status.
\<close>

theorem getMemberStats_loans:
  "activeLoans (getMemberStats s memberId) =
     length (filter (\<lambda>l. l_memberId l = memberId \<and> date_given l \<le> workingDate s \<and>
                          status (getLoanDetails s l) \<noteq> PAID) (loans s))
   \<and> totalLoanBalance (getMemberStats s memberId) =
     sum_list (map (\<lambda>l. balance (getLoanDetails s l))
       (filter (\<lambda>l. l_memberId l = memberId \<and> date_given l \<le> workingDate s \<and>
                     status (getLoanDetails s l) \<noteq> PAID) (loans s)))
   \<and> (workingDate s < date_given loan \<longrightarrow>
        activeLoans (getMemberStats (s\<lparr> loans := loans s @ [loan] \<rparr>) memberId) =
          activeLoans (getMemberStats s memberId)
        \<and> totalLoanBalance (getMemberStats (s\<lparr> loans := loans s @ [loan] \<rparr>) memberId) =
          totalLoanBalance (getMemberStats s memberId))"
proof -
  have "activeLoans (getMemberStats (s\<lparr> loans := loans s @ [loan] \<rparr>) memberId) =
          activeLoans (getMemberStats s memberId)
        \<and> totalLoanBalance (getMemberStats (s\<lparr> loans := loans s @ [loan] \<rparr>) memberId) =
          totalLoanBalance (getMemberStats s memberId)"
    if "workingDate s < date_given loan"
    using that by (simp add: memberStats_loans getLoanDetails_loans_update)
  then show ?thesis using memberStats_loans by blast
qed

theorem getMemberStats_loans_witness:
  "workingDate twoDebts < date_given loanFuture
   \<and> l_memberId loanFuture = ''m1''
   \<and> status (getLoanDetails twoDebts loanFuture) = UNPAID
   \<and> activeLoans (getMemberStats twoDebts ''m1'') = 2
   \<and> totalLoanBalance (getMemberStats twoDebts ''m1'') = 330
   \<and> activeLoans (getMemberStats (twoDebts\<lparr> loans := loans twoDebts @ [loanFuture] \<rparr>) ''m1'') = 2
   \<and> totalLoanBalance (getMemberStats (twoDebts\<lparr> loans := loans twoDebts @ [loanFuture] \<rparr>) ''m1'') = 330"
proof -
  have w: "workingDate twoDebts < date_given loanFuture"
    by (simp add: twoDebts_def loanFuture_def)
  have dN: "getLoanDetails twoDebts loanNew =
     \<lparr> interestAmount = 20, totalDue = 220, amountPaid = 0, balance = 220, status = OVERDUE \<rparr>"
    by (simp add: getLoanDetails_def Let_def sumAmounts_def isBeforeOrOnWorkingDate_def
        twoDebts_def loanNew_def shareEntry_def)
  have dO: "getLoanDetails twoDebts loanOld =
     \<lparr> interestAmount = 10, totalDue = 110, amountPaid = 0, balance = 110, status = OVERDUE \<rparr>"
    by (simp add: getLoanDetails_def Let_def sumAmounts_def isBeforeOrOnWorkingDate_def
        twoDebts_def loanOld_def shareEntry_def)
  have dF: "status (getLoanDetails twoDebts loanFuture) = UNPAID"
    by (simp add: getLoanDetails_def Let_def sumAmounts_def isBeforeOrOnWorkingDate_def
        twoDebts_def loanFuture_def shareEntry_def)
  have l: "loans twoDebts = [loanNew, loanOld]" "workingDate twoDebts = 100"
    by (simp_all add: twoDebts_def)
  have m: "l_memberId loanNew = ''m1''" "l_memberId loanOld = ''m1''" "l_memberId loanFuture = ''m1''"
    "date_given loanNew = 60" "date_given loanOld = 20"
    by (simp_all add: loanNew_def loanOld_def loanFuture_def)
  from getMemberStats_loans[of twoDebts "''m1''" loanFuture] w
  have "activeLoans (getMemberStats twoDebts ''m1'') = 2
   \<and> totalLoanBalance (getMemberStats twoDebts ''m1'') = 330
   \<and> activeLoans (getMemberStats (twoDebts\<lparr> loans := loans twoDebts @ [loanFuture] \<rparr>) ''m1'') = 2
   \<and> totalLoanBalance (getMemberStats (twoDebts\<lparr> loans := loans twoDebts @ [loanFuture] \<rparr>) ''m1'') = 330"
    unfolding l by (simp add: m dN dO)
  then show ?thesis using w dF m by simp
qed

end
